theory Spec2Isabelle
  imports Main "HOL-Library.Word" "HOL-Library.Signed_Division"
    "HOL-Library.Char_ord" "HOL-Library.List_Lexorder" "HOL-Library.Product_Lexorder"
begin

section \<open>Data model\<close>

text \<open>
  The metadata store of the cloud drive is an SQLite database; the model keeps each table
  as the list of its rows, in insertion order. Timestamps are the \<open>i64\<close> values of
  \<open>sync::Timestamp\<close>; only comparisons are made on them, so they are integers here.
  File content is a byte vector.
\<close>

type_synonym Timestamp = int
type_synonym bytes = "8 word list"

text \<open>
  Every failure of the source is a \<open>stl::make_error\<close> carrying a message. Messages that
  the source writes itself are kept literally; a message propagated from the database
  library, from the filesystem library or from the signature check is a constructor of
  its own.
\<close>

datatype error = Db_error | Fs_error | Crypto_error | Message string

text \<open>\<open>sync::FileMetadata\<close>, which is also the row of table \<open>files\<close>.\<close>

record FileMetadata =
  path :: string
  hash :: string
  fsize :: int
  mtime :: Timestamp
  created_at :: Timestamp
  updated_at :: Timestamp
  is_deleted :: bool

text \<open>Row of table \<open>notes\<close>; \<open>sync::NoteMetadata\<close> is the row together with the tag names.\<close>

record note_row =
  note_id :: string
  note_path :: string
  title :: string
  note_hash :: string
  note_created_at :: Timestamp
  note_updated_at :: Timestamp
  note_is_deleted :: bool

record NoteMetadata = note_row +
  meta_tags :: "string list"

record tag_row =
  tag_id :: int
  tag_name :: string

record note_tag_row =
  nt_note_id :: string
  nt_tag_id :: int

record fts_row =
  fts_note_id :: string
  fts_title :: string
  fts_content :: string

record token_row =
  token :: string
  token_created_at :: int
  token_expires_at :: int
  last_used :: "int option"

record challenge_row =
  challenge :: string
  public_key :: string
  challenge_expires_at :: int

record TagInfo =
  name :: string
  count :: int

text \<open>
  The database behind \<open>MetadataStore\<close>. Every call into the database library
  (\<open>prepare\<close>, \<open>execute\<close>, \<open>fetch_one\<close>, \<open>fetch_all\<close>, \<open>query\<close>) can fail; \<open>db_faults\<close>
  lists, for the calls still to come, whether each one fails. Once the list is used up
  every call succeeds, so \<open>db_faults = []\<close> is a database without failures.
\<close>

record store =
  files :: "FileMetadata list"
  notes_table :: "note_row list"
  tags :: "tag_row list"
  note_tags :: "note_tag_row list"
  notes_fts :: "fts_row list"
  auth_tokens :: "token_row list"
  auth_challenges :: "challenge_row list"
  db_faults :: "bool list"

definition empty_store :: store where
  "empty_store = \<lparr>files = [], notes_table = [], tags = [], note_tags = [], notes_fts = [],
     auth_tokens = [], auth_challenges = [], db_faults = []\<rparr>"

definition db_call :: "store \<Rightarrow> bool \<times> store" where
  "db_call s = (case db_faults s of [] \<Rightarrow> (True, s)
                | f # fs \<Rightarrow> (\<not> f, s\<lparr>db_faults := fs\<rparr>))"

text \<open>
  A library call whose result the source checks (\<open>if (!stmt) return make_error(...)\<close>):
  on failure the operation returns the database's error, otherwise it goes on.
\<close>

definition db_try :: "store \<Rightarrow> (store \<Rightarrow> (error + 'a) \<times> store) \<Rightarrow> (error + 'a) \<times> store" where
  "db_try s k = (let (ok, s1) = db_call s in if ok then k s1 else (Inl Db_error, s1))"

text \<open>
  A statement that the source prepares under \<open>if (stmt) { ... execute(); }\<close> and whose
  outcome it ignores: the change \<open>f\<close> is applied when both calls succeed, and the
  operation goes on in every case.
\<close>

definition db_best_effort :: "store \<Rightarrow> (store \<Rightarrow> store) \<Rightarrow> store" where
  "db_best_effort s f =
     (let (ok, s1) = db_call s in
      if ok then (let (ok2, s2) = db_call s1 in if ok2 then f s2 else s2) else s1)"

text \<open>The clock: \<open>sync::now_ms() / 1000\<close>, the integer division of C++ (towards zero).\<close>

definition now_seconds :: "Timestamp \<Rightarrow> int" where
  "now_seconds now_ms = now_ms sdiv 1000"

section \<open>MetadataStore: files\<close>

definition get_file :: "string \<Rightarrow> store \<Rightarrow> (error + FileMetadata option) \<times> store" where
  "get_file p s =
     db_try s (\<lambda>s1. db_try s1 (\<lambda>s2.
       (Inr (find (\<lambda>r. path r = p) (files s2)), s2)))"

definition get_all_files :: "Timestamp option \<Rightarrow> store \<Rightarrow> (error + FileMetadata list) \<times> store" where
  "get_all_files since s =
     db_try s (\<lambda>s1. db_try s1 (\<lambda>s2.
       (Inr (case since of None \<Rightarrow> files s2
             | Some t \<Rightarrow> filter (\<lambda>r. updated_at r > t) (files s2)), s2)))"

text \<open>
  \<open>INSERT ... ON CONFLICT(path) DO UPDATE SET hash, size, mtime, updated_at, is_deleted\<close>:
  a row of the same path keeps its place and its \<open>created_at\<close>.
\<close>

definition upsert_row :: "FileMetadata \<Rightarrow> FileMetadata list \<Rightarrow> FileMetadata list" where
  "upsert_row meta rows =
     (if find (\<lambda>r. path r = path meta) rows = None then rows @ [meta]
      else map (\<lambda>r. if path r = path meta
                     then r\<lparr>hash := hash meta, fsize := fsize meta, mtime := mtime meta,
                            updated_at := updated_at meta, is_deleted := is_deleted meta\<rparr>
                     else r) rows)"

definition upsert_file :: "FileMetadata \<Rightarrow> store \<Rightarrow> (error + unit) \<times> store" where
  "upsert_file meta s =
     db_try s (\<lambda>s1. db_try s1 (\<lambda>s2.
       (Inr (), s2\<lparr>files := upsert_row meta (files s2)\<rparr>)))"

text \<open>\<open>UPDATE files SET is_deleted = 1, updated_at = ? WHERE path = ?\<close>\<close>

definition mark_deleted :: "Timestamp \<Rightarrow> string \<Rightarrow> store \<Rightarrow> (error + unit) \<times> store" where
  "mark_deleted now p s =
     db_try s (\<lambda>s1. db_try s1 (\<lambda>s2.
       (Inr (), s2\<lparr>files := map (\<lambda>r. if path r = p
                                        then r\<lparr>is_deleted := True, updated_at := now\<rparr>
                                        else r) (files s2)\<rparr>)))"

definition remove_file :: "string \<Rightarrow> store \<Rightarrow> (error + unit) \<times> store" where
  "remove_file p s =
     db_try s (\<lambda>s1. db_try s1 (\<lambda>s2.
       (Inr (), s2\<lparr>files := filter (\<lambda>r. path r \<noteq> p) (files s2)\<rparr>)))"

section \<open>The content store\<close>

text \<open>
  \<open>fs::Filesystem\<close> (library \<open>sap_fs\<close>) is not part of the repository. The services are
  therefore parametrised by its operations, over any type \<open>'fs\<close> of filesystem states;
  an operation that changes the filesystem returns the new state with its result.
\<close>

record 'fs Filesystem =
  fs_read :: "'fs \<Rightarrow> string \<Rightarrow> error + bytes"
  fs_read_string :: "'fs \<Rightarrow> string \<Rightarrow> error + string"
  fs_write :: "'fs \<Rightarrow> string \<Rightarrow> bytes \<Rightarrow> (error + unit) \<times> 'fs"
  fs_remove :: "'fs \<Rightarrow> string \<Rightarrow> (error + unit) \<times> 'fs"
  fs_mtime :: "'fs \<Rightarrow> string \<Rightarrow> error + Timestamp"
  fs_set_mtime :: "'fs \<Rightarrow> string \<Rightarrow> Timestamp \<Rightarrow> (error + unit) \<times> 'fs"

section \<open>FileService\<close>

definition FileService_get_file ::
  "'fs Filesystem \<Rightarrow> string \<Rightarrow> 'fs \<Rightarrow> store \<Rightarrow> (error + bytes) \<times> store" where
  "FileService_get_file ops p fs s =
     (let (meta_result, s1) = get_file p s in
      case meta_result of
        Inl e \<Rightarrow> (Inl e, s1)
      | Inr None \<Rightarrow> (Inl (Message ''File not found''), s1)
      | Inr (Some m) \<Rightarrow>
          if is_deleted m then (Inl (Message ''File not found''), s1)
          else (fs_read ops fs p, s1))"

text \<open>
  \<open>build_metadata\<close> reads the clock up to three times: for \<open>mtime\<close> when the filesystem
  gives none, for \<open>created_at\<close> and for \<open>updated_at\<close>. The hash function
  \<open>sync::hash_bytes\<close> is a parameter.
\<close>

definition build_metadata ::
  "'fs Filesystem \<Rightarrow> (bytes \<Rightarrow> string) \<Rightarrow> Timestamp \<Rightarrow> Timestamp \<Rightarrow> Timestamp \<Rightarrow>
   string \<Rightarrow> bytes \<Rightarrow> 'fs \<Rightarrow> error + FileMetadata" where
  "build_metadata ops hash_bytes now_m now_c now_u p content fs =
     Inr \<lparr>path = p, hash = hash_bytes content, fsize = int (length content),
          mtime = (case fs_mtime ops fs p of Inr t \<Rightarrow> t | Inl _ \<Rightarrow> now_m),
          created_at = now_c, updated_at = now_u, is_deleted = False\<rparr>"

definition FileService_put_file ::
  "'fs Filesystem \<Rightarrow> (bytes \<Rightarrow> string) \<Rightarrow> Timestamp \<Rightarrow> Timestamp \<Rightarrow> Timestamp \<Rightarrow> Timestamp \<Rightarrow>
   string \<Rightarrow> bytes \<Rightarrow> Timestamp option \<Rightarrow> 'fs \<Rightarrow> store \<Rightarrow>
   (error + FileMetadata) \<times> 'fs \<times> store" where
  "FileService_put_file ops hash_bytes now now_m now_c now_u p content client_mtime fs s =
     (let (existing_result, s1) = get_file p s;
          created = (case existing_result of Inr (Some ex) \<Rightarrow> created_at ex | _ \<Rightarrow> now);
          (write_result, fs1) = fs_write ops fs p content
      in case write_result of
           Inl e \<Rightarrow> (Inl e, fs1, s1)
         | Inr _ \<Rightarrow>
            (let (res, fs2) = (case client_mtime of
                                 None \<Rightarrow> (Inr (), fs1)
                               | Some t \<Rightarrow> fs_set_mtime ops fs1 p t)
             in case res of
                  Inl e \<Rightarrow> (Inl e, fs2, s1)
                | Inr _ \<Rightarrow>
                   (case build_metadata ops hash_bytes now_m now_c now_u p content fs2 of
                      Inl e \<Rightarrow> (Inl e, fs2, s1)
                    | Inr meta0 \<Rightarrow>
                       (let meta1 = meta0\<lparr>created_at := created\<rparr>;
                            meta = (case client_mtime of
                                      None \<Rightarrow> meta1
                                    | Some t \<Rightarrow> meta1\<lparr>mtime := t\<rparr>);
                            (store_result, s2) = upsert_file meta s1
                        in case store_result of
                             Inl e \<Rightarrow> (Inl e, fs2, s2)
                           | Inr _ \<Rightarrow> (Inr meta, fs2, s2)))))"

text \<open>A failed removal of the content is logged only; the tombstone is written in any case.\<close>

definition FileService_delete_file ::
  "'fs Filesystem \<Rightarrow> Timestamp \<Rightarrow> string \<Rightarrow> 'fs \<Rightarrow> store \<Rightarrow> (error + unit) \<times> 'fs \<times> store" where
  "FileService_delete_file ops now p fs s =
     (let (remove_result, fs1) = fs_remove ops fs p;
          (mark_result, s1) = mark_deleted now p s
      in case mark_result of
           Inl e \<Rightarrow> (Inl e, fs1, s1)
         | Inr _ \<Rightarrow> (Inr (), fs1, s1))"

definition FileService_list_files :: "store \<Rightarrow> (error + FileMetadata list) \<times> store" where
  "FileService_list_files s = get_all_files None s"

definition FileService_get_changed_since ::
  "Timestamp \<Rightarrow> store \<Rightarrow> (error + FileMetadata list) \<times> store" where
  "FileService_get_changed_since since s = get_all_files (Some since) s"

section \<open>SyncService\<close>

record SyncState =
  server_time :: Timestamp
  sync_files :: "FileMetadata list"

definition get_sync_state ::
  "Timestamp \<Rightarrow> Timestamp option \<Rightarrow> store \<Rightarrow> (error + SyncState) \<times> store" where
  "get_sync_state now since s =
     (let (files_result, s1) = (case since of
                                  Some t \<Rightarrow> FileService_get_changed_since t s
                                | None \<Rightarrow> FileService_list_files s)
      in case files_result of
           Inl e \<Rightarrow> (Inl e, s1)
         | Inr fl \<Rightarrow> (Inr \<lparr>server_time = now, sync_files = fl\<rparr>, s1))"

section \<open>MetadataStore: tokens and challenges\<close>

text \<open>
  \<open>token\<close> is the primary key of \<open>auth_tokens\<close> and \<open>challenge\<close> that of
  \<open>auth_challenges\<close>: a plain \<open>INSERT\<close> of a key that is present fails in \<open>execute\<close>.
\<close>

definition store_token :: "Timestamp \<Rightarrow> string \<Rightarrow> int \<Rightarrow> store \<Rightarrow> (error + unit) \<times> store" where
  "store_token now_ms tok expires s =
     (let now = now_seconds now_ms in
      db_try s (\<lambda>s1. db_try s1 (\<lambda>s2.
        if find (\<lambda>r. token r = tok) (auth_tokens s2) \<noteq> None then (Inl Db_error, s2)
        else (Inr (), s2\<lparr>auth_tokens := auth_tokens s2 @
                [\<lparr>token = tok, token_created_at = now, token_expires_at = expires,
                  last_used = None\<rparr>]\<rparr>))))"


definition cleanup_expired_tokens :: "Timestamp \<Rightarrow> store \<Rightarrow> (error + unit) \<times> store" where
  "cleanup_expired_tokens now_ms s =
     (let now = now_seconds now_ms in
      db_try s (\<lambda>s1.
        (let (ok, s2) = db_call s1 in
         (Inr (), if ok then s2\<lparr>auth_tokens :=
                     filter (\<lambda>r. \<not> token_expires_at r < now) (auth_tokens s2)\<rparr>
                  else s2))))"

definition store_challenge :: "string \<Rightarrow> string \<Rightarrow> int \<Rightarrow> store \<Rightarrow> (error + unit) \<times> store" where
  "store_challenge c k expires s =
     db_try s (\<lambda>s1. db_try s1 (\<lambda>s2.
       if find (\<lambda>r. challenge r = c) (auth_challenges s2) \<noteq> None then (Inl Db_error, s2)
       else (Inr (), s2\<lparr>auth_challenges := auth_challenges s2 @
               [\<lparr>challenge = c, public_key = k, challenge_expires_at = expires\<rparr>]\<rparr>)))"

text \<open>
  A row that matches the challenge and the key and has not expired is looked up; when
  there is one, every row of that challenge is deleted (the outcome of the \<open>DELETE\<close> is
  not checked) and the answer is \<open>true\<close>.
\<close>

definition validate_challenge ::
  "Timestamp \<Rightarrow> string \<Rightarrow> string \<Rightarrow> store \<Rightarrow> (error + bool) \<times> store" where
  "validate_challenge now_ms c k s =
     (let now = now_seconds now_ms in
      db_try s (\<lambda>s1. db_try s1 (\<lambda>s2.
        if find (\<lambda>r. challenge r = c \<and> public_key r = k \<and> challenge_expires_at r > now)
                (auth_challenges s2) = None
        then (Inr False, s2)
        else (Inr True,
              db_best_effort s2 (\<lambda>s3. s3\<lparr>auth_challenges :=
                filter (\<lambda>r. challenge r \<noteq> c) (auth_challenges s3)\<rparr>)))))"

section \<open>AuthManager\<close>

text \<open>
  \<open>sync::parse_public_key\<close>, \<open>sync::verify_signature\<close> and the random
  \<open>sync::generate_token\<close> belong to library \<open>sap_sync\<close>; they are parameters
  (\<open>new_token\<close> is the token that the generator returns in this call).
\<close>

record VerifyRequest =
  req_challenge :: string
  req_public_key :: string
  req_signature :: string

record AuthToken =
  auth_token :: string
  auth_expires_at :: int

definition verify_challenge ::
  "(string \<Rightarrow> error + 'key) \<Rightarrow> ('key \<Rightarrow> string \<Rightarrow> string \<Rightarrow> error + bool) \<Rightarrow> string \<Rightarrow> int \<Rightarrow>
   Timestamp \<Rightarrow> Timestamp \<Rightarrow> Timestamp \<Rightarrow> VerifyRequest \<Rightarrow> store \<Rightarrow> (error + AuthToken) \<times> store" where
  "verify_challenge parse_public_key verify_signature new_token token_expiry
       now_v now_t now_s req s =
     (let (valid_result, s1) = validate_challenge now_v (req_challenge req) (req_public_key req) s
      in case valid_result of
           Inl e \<Rightarrow> (Inl e, s1)
         | Inr False \<Rightarrow> (Inl (Message ''Invalid or expired challenge''), s1)
         | Inr True \<Rightarrow>
            (case parse_public_key (req_public_key req) of
               Inl _ \<Rightarrow> (Inl (Message ''Invalid public key''), s1)
             | Inr key \<Rightarrow>
                (case verify_signature key (req_challenge req) (req_signature req) of
                   Inl e \<Rightarrow> (Inl e, s1)
                 | Inr False \<Rightarrow> (Inl (Message ''Signature verification failed''), s1)
                 | Inr True \<Rightarrow>
                    (let expires = now_seconds now_t + token_expiry;
                         (store_result, s2) = store_token now_s new_token expires s1
                     in case store_result of
                          Inl e \<Rightarrow> (Inl e, s2)
                        | Inr _ \<Rightarrow> (Inr \<lparr>auth_token = new_token, auth_expires_at = expires\<rparr>, s2)))))"


section \<open>MetadataStore: notes, tags and the search index\<close>

text \<open>
  \<open>LEFT JOIN\<close>: every row of the left side is kept; where the right side has no
  matching row it is paired with \<open>NULL\<close>.
\<close>

definition left_join :: "'a list \<Rightarrow> ('a \<Rightarrow> 'b list) \<Rightarrow> ('a \<times> 'b option) list" where
  "left_join xs matches =
     concat (map (\<lambda>x. case matches x of
                         [] \<Rightarrow> [(x, None)]
                       | y # ys \<Rightarrow> map (\<lambda>z. (x, Some z)) (y # ys)) xs)"

text \<open>
  The names that \<open>GROUP_CONCAT(t.name)\<close> collects for a note: for each link of the note
  (\<open>LEFT JOIN note_tags\<close>), the names of the tags of that id (\<open>LEFT JOIN tags\<close>); \<open>NULL\<close>
  rows add nothing.
\<close>

definition note_tag_names :: "store \<Rightarrow> string \<Rightarrow> string list" where
  "note_tag_names s i =
     concat (map (\<lambda>(l, t). case t of None \<Rightarrow> [] | Some t' \<Rightarrow> [tag_name t'])
       (left_join (filter (\<lambda>l. nt_note_id l = i) (note_tags s))
                  (\<lambda>l. filter (\<lambda>t. tag_id t = nt_tag_id l) (tags s))))"

definition group_concat :: "string list \<Rightarrow> string option" where
  "group_concat xs = (case xs of [] \<Rightarrow> None
                      | x # r \<Rightarrow> Some (foldl (\<lambda>a b. a @ '','' @ b) x r))"

text \<open>
  \<open>while (std::getline(iss, tag, ','))\<close>: a token ends at a comma or at the end of the
  text; at the end of the text an empty token is not produced.
\<close>

fun getline_split :: "string \<Rightarrow> string \<Rightarrow> string list" where
  "getline_split cur [] = (if cur = [] then [] else [cur])"
| "getline_split cur (c # cs) =
     (if c = CHR '','' then cur # getline_split [] cs else getline_split (cur @ [c]) cs)"

definition parse_tags :: "string option \<Rightarrow> string list" where
  "parse_tags tags_opt = (case tags_opt of None \<Rightarrow> []
                          | Some t \<Rightarrow> if t = [] then [] else getline_split [] t)"

definition to_meta :: "note_row \<Rightarrow> bool \<Rightarrow> string list \<Rightarrow> NoteMetadata" where
  "to_meta n deleted names =
     \<lparr>note_id = note_id n, note_path = note_path n, title = title n, note_hash = note_hash n,
      note_created_at = note_created_at n, note_updated_at = note_updated_at n,
      note_is_deleted = deleted, meta_tags = parse_tags (group_concat names)\<rparr>"

definition get_note :: "string \<Rightarrow> store \<Rightarrow> (error + NoteMetadata option) \<times> store" where
  "get_note i s =
     db_try s (\<lambda>s1. db_try s1 (\<lambda>s2.
       (Inr (map_option (\<lambda>n. to_meta n (note_is_deleted n) (note_tag_names s2 (note_id n)))
               (find (\<lambda>n. note_id n = i) (notes_table s2))), s2)))"

text \<open>\<open>WHERE n.is_deleted = 0 ... ORDER BY n.updated_at DESC\<close>, in one \<open>query\<close> call.\<close>

definition get_all_notes :: "store \<Rightarrow> (error + NoteMetadata list) \<times> store" where
  "get_all_notes s =
     db_try s (\<lambda>s1.
       (Inr (map (\<lambda>n. to_meta n (note_is_deleted n) (note_tag_names s1 (note_id n)))
               (sort_key (\<lambda>n. - note_updated_at n)
                  (filter (\<lambda>n. \<not> note_is_deleted n) (notes_table s1)))), s1))"

text \<open>
  The links of a note to a tag of the given name (\<open>JOIN note_tags nt JOIN tags t ...
  WHERE t.name = ?\<close>); the note is selected when there is one, and its tag names are
  collected once for each.
\<close>

definition links_to_tag :: "store \<Rightarrow> string \<Rightarrow> string \<Rightarrow> (note_tag_row \<times> tag_row) list" where
  "links_to_tag s tg i =
     concat (map (\<lambda>l. map (\<lambda>t. (l, t))
                        (filter (\<lambda>t. tag_id t = nt_tag_id l \<and> tag_name t = tg) (tags s)))
                 (filter (\<lambda>l. nt_note_id l = i) (note_tags s)))"

definition get_notes_by_tag :: "string \<Rightarrow> store \<Rightarrow> (error + NoteMetadata list) \<times> store" where
  "get_notes_by_tag tg s =
     db_try s (\<lambda>s1. db_try s1 (\<lambda>s2.
       (Inr (map (\<lambda>n. to_meta n False
                    (concat (replicate (length (links_to_tag s2 tg (note_id n)))
                               (note_tag_names s2 (note_id n)))))
               (sort_key (\<lambda>n. - note_updated_at n)
                  (filter (\<lambda>n. links_to_tag s2 tg (note_id n) \<noteq> [] \<and> \<not> note_is_deleted n)
                     (notes_table s2)))), s2)))"

text \<open>
  The full-text engine (FTS5) is SQLite's: whether an entry matches a query and the rank
  it gets are parameters \<open>fts_match\<close> and \<open>fts_rank\<close>.
\<close>

definition fts_hits :: "(string \<Rightarrow> fts_row \<Rightarrow> bool) \<Rightarrow> store \<Rightarrow> string \<Rightarrow> string \<Rightarrow> fts_row list" where
  "fts_hits fts_match s q i =
     filter (\<lambda>e. fts_note_id e = i \<and> fts_match q e) (notes_fts s)"

definition search_notes ::
  "(string \<Rightarrow> fts_row \<Rightarrow> bool) \<Rightarrow> (string \<Rightarrow> fts_row \<Rightarrow> int) \<Rightarrow> string \<Rightarrow> store \<Rightarrow>
   (error + NoteMetadata list) \<times> store" where
  "search_notes fts_match fts_rank q s =
     db_try s (\<lambda>s1. db_try s1 (\<lambda>s2.
       (Inr (map (\<lambda>n. to_meta n False
                    (concat (replicate (length (fts_hits fts_match s2 q (note_id n)))
                               (note_tag_names s2 (note_id n)))))
               (sort_key (\<lambda>n. case fts_hits fts_match s2 q (note_id n) of
                                 [] \<Rightarrow> 0 | e # _ \<Rightarrow> fts_rank q e)
                  (filter (\<lambda>n. fts_hits fts_match s2 q (note_id n) \<noteq> [] \<and> \<not> note_is_deleted n)
                     (notes_table s2)))), s2)))"

text \<open>\<open>INSERT OR IGNORE INTO tags (name)\<close>; the id is the next of \<open>AUTOINCREMENT\<close>.\<close>

definition insert_tag :: "string \<Rightarrow> store \<Rightarrow> store" where
  "insert_tag tg s =
     (if find (\<lambda>t. tag_name t = tg) (tags s) \<noteq> None then s
      else s\<lparr>tags := tags s @ [\<lparr>tag_id = foldr max (map tag_id (tags s)) 0 + 1,
                                 tag_name = tg\<rparr>]\<rparr>)"

text \<open>\<open>INSERT OR IGNORE INTO note_tags (note_id, tag_id)\<close>\<close>

definition insert_link :: "string \<Rightarrow> int \<Rightarrow> store \<Rightarrow> store" where
  "insert_link i tid s =
     (if find (\<lambda>l. nt_note_id l = i \<and> nt_tag_id l = tid) (note_tags s) \<noteq> None then s
      else s\<lparr>note_tags := note_tags s @ [\<lparr>nt_note_id = i, nt_tag_id = tid\<rparr>]\<rparr>)"

text \<open>One round of the loop of \<open>set_note_tags\<close>; a \<open>continue\<close> leaves the round.\<close>

definition link_tag :: "string \<Rightarrow> string \<Rightarrow> store \<Rightarrow> store" where
  "link_tag i tg s =
     (let s1 = db_best_effort s (insert_tag tg);
          (ok, s2) = db_call s1
      in if \<not> ok then s2
         else (let (ok2, s3) = db_call s2
               in if \<not> ok2 then s3
                  else (case find (\<lambda>t. tag_name t = tg) (tags s3) of
                          None \<Rightarrow> s3
                        | Some t \<Rightarrow> db_best_effort s3 (insert_link i (tag_id t)))))"

definition set_note_tags :: "string \<Rightarrow> string list \<Rightarrow> store \<Rightarrow> (error + unit) \<times> store" where
  "set_note_tags i tgs s =
     db_try s (\<lambda>s1.
       (let (ok, s2) = db_call s1;
            s3 = (if ok then s2\<lparr>note_tags := filter (\<lambda>l. nt_note_id l \<noteq> i) (note_tags s2)\<rparr>
                  else s2)
        in (Inr (), foldl (\<lambda>st tg. link_tag i tg st) s3 tgs)))"

text \<open>
  \<open>INSERT INTO notes ... ON CONFLICT(id) DO UPDATE SET path, title, hash, updated_at,
  is_deleted\<close>. Column \<open>path\<close> is \<open>UNIQUE\<close>: a path that another note holds makes
  \<open>execute\<close> fail.
\<close>

definition upsert_note_row :: "NoteMetadata \<Rightarrow> note_row list \<Rightarrow> note_row list" where
  "upsert_note_row meta rows =
     (if find (\<lambda>n. note_id n = note_id meta) rows = None
      then rows @ [\<lparr>note_id = note_id meta, note_path = note_path meta, title = title meta,
                    note_hash = note_hash meta, note_created_at = note_created_at meta,
                    note_updated_at = note_updated_at meta,
                    note_is_deleted = note_is_deleted meta\<rparr>]
      else map (\<lambda>n. if note_id n = note_id meta
                     then n\<lparr>note_path := note_path meta, title := title meta,
                            note_hash := note_hash meta,
                            note_updated_at := note_updated_at meta,
                            note_is_deleted := note_is_deleted meta\<rparr>
                     else n) rows)"

definition upsert_note :: "NoteMetadata \<Rightarrow> store \<Rightarrow> (error + unit) \<times> store" where
  "upsert_note meta s =
     db_try s (\<lambda>s1. db_try s1 (\<lambda>s2.
       if find (\<lambda>n. note_path n = note_path meta \<and> note_id n \<noteq> note_id meta) (notes_table s2) \<noteq> None
       then (Inl Db_error, s2)
       else set_note_tags (note_id meta) (meta_tags meta)
              (s2\<lparr>notes_table := upsert_note_row meta (notes_table s2)\<rparr>)))"

definition remove_fts :: "string \<Rightarrow> store \<Rightarrow> (error + unit) \<times> store" where
  "remove_fts i s =
     db_try s (\<lambda>s1.
       (let (ok, s2) = db_call s1
        in (Inr (), if ok then s2\<lparr>notes_fts := filter (\<lambda>e. fts_note_id e \<noteq> i) (notes_fts s2)\<rparr>
                    else s2)))"

definition update_fts :: "string \<Rightarrow> string \<Rightarrow> string \<Rightarrow> store \<Rightarrow> (error + unit) \<times> store" where
  "update_fts i ttl content s =
     (let (res, s1) = remove_fts i s
      in case res of
           Inl e \<Rightarrow> (Inl e, s1)
         | Inr _ \<Rightarrow>
            db_try s1 (\<lambda>s2. db_try s2 (\<lambda>s3.
              (Inr (), s3\<lparr>notes_fts := notes_fts s3 @
                 [\<lparr>fts_note_id = i, fts_title = ttl, fts_content = content\<rparr>]\<rparr>))))"

text \<open>
  \<open>UPDATE notes SET is_deleted = 1, updated_at = ? WHERE id = ?\<close>, then the entry of the
  search index is removed. The rows of \<open>note_tags\<close> stay.
\<close>

definition delete_note :: "Timestamp \<Rightarrow> string \<Rightarrow> store \<Rightarrow> (error + unit) \<times> store" where
  "delete_note now i s =
     db_try s (\<lambda>s1. db_try s1 (\<lambda>s2.
       remove_fts i
         (s2\<lparr>notes_table := map (\<lambda>n. if note_id n = i
                                       then n\<lparr>note_is_deleted := True, note_updated_at := now\<rparr>
                                       else n) (notes_table s2)\<rparr>)))"

text \<open>
  \<open>SELECT t.name, COUNT(nt.note_id) FROM tags t LEFT JOIN note_tags nt ON t.id = nt.tag_id
  LEFT JOIN notes n ON nt.note_id = n.id AND n.is_deleted = 0 GROUP BY t.id
  HAVING count > 0 ORDER BY count DESC, t.name\<close>. There is one group for each row of
  \<open>tags\<close> (\<open>id\<close> is the primary key); \<open>COUNT(nt.note_id)\<close> counts the rows of the group
  whose link is not \<open>NULL\<close>.
\<close>

definition tags_join :: "store \<Rightarrow> ((tag_row \<times> note_tag_row option) \<times> note_row option) list" where
  "tags_join s =
     left_join
       (left_join (tags s) (\<lambda>t. filter (\<lambda>l. nt_tag_id l = tag_id t) (note_tags s)))
       (\<lambda>(t, nt). case nt of
                    None \<Rightarrow> []
                  | Some l \<Rightarrow> filter (\<lambda>n. nt_note_id l = note_id n \<and> \<not> note_is_deleted n)
                                (notes_table s))"

definition tag_info :: "store \<Rightarrow> tag_row \<Rightarrow> TagInfo" where
  "tag_info s t =
     \<lparr>name = tag_name t,
      count = int (length (filter (\<lambda>((t', nt), n). tag_id t' = tag_id t \<and> nt \<noteq> None)
                             (tags_join s)))\<rparr>"

definition get_all_tags :: "store \<Rightarrow> (error + TagInfo list) \<times> store" where
  "get_all_tags s =
     db_try s (\<lambda>s1.
       (Inr (sort_key (\<lambda>info. (- count info, name info))
               (filter (\<lambda>info. count info > 0) (map (tag_info s1) (tags s1)))), s1))"

section \<open>NoteService\<close>

text \<open>A failed removal of the note's file ends the call: \<open>if (!remove_result) return remove_result;\<close>\<close>

definition NoteService_delete_note ::
  "'fs Filesystem \<Rightarrow> Timestamp \<Rightarrow> string \<Rightarrow> 'fs \<Rightarrow> store \<Rightarrow> (error + unit) \<times> 'fs \<times> store" where
  "NoteService_delete_note ops now i fs s =
     (let (meta_result, s1) = get_note i s
      in case meta_result of
           Inl e \<Rightarrow> (Inl e, fs, s1)
         | Inr None \<Rightarrow> (Inl (Message ''Note not found''), fs, s1)
         | Inr (Some m) \<Rightarrow>
            (let (remove_result, fs1) = fs_remove ops fs (note_path m)
             in case remove_result of
                  Inl e \<Rightarrow> (Inl e, fs1, s1)
                | Inr _ \<Rightarrow>
                   (let (delete_result, s2) = delete_note now i s1
                    in case delete_result of
                         Inl e \<Rightarrow> (Inl e, fs1, s2)
                       | Inr _ \<Rightarrow> (Inr (), fs1, s2))))"

text \<open>
  \<open>ListOptions\<close>: \<open>limit\<close> and \<open>offset\<close> are \<open>i64\<close> (read with \<open>sint\<close>); the cast to
  \<open>size_t\<close> keeps the 64 bits and reads them unsigned.
\<close>

record ListOptions =
  opt_tag :: "string option"
  opt_search :: "string option"
  limit :: "64 word"
  offset :: "64 word"

definition default_options :: ListOptions where
  "default_options = \<lparr>opt_tag = None, opt_search = None, limit = 50, offset = 0\<rparr>"

record NoteListItem =
  item_id :: string
  item_title :: string
  item_tags :: "string list"
  item_updated_at :: Timestamp
  preview :: string

record NoteListResponse =
  list_notes_items :: "NoteListItem list"
  total :: int

definition to_list_item :: "(string \<Rightarrow> string) \<Rightarrow> NoteMetadata \<Rightarrow> string \<Rightarrow> NoteListItem" where
  "to_list_item generate_preview meta content =
     \<lparr>item_id = note_id meta, item_title = title meta, item_tags = meta_tags meta,
      item_updated_at = note_updated_at meta, preview = generate_preview content\<rparr>"

text \<open>
  The pagination loop \<open>for (size_t i = start; i < end; ++i)\<close> over
  \<open>end = min(start + limit, notes.size())\<close>, in \<open>size_t\<close> arithmetic, which wraps.
\<close>

definition paginate ::
  "'fs Filesystem \<Rightarrow> (string \<Rightarrow> string) \<Rightarrow> ListOptions \<Rightarrow> 'fs \<Rightarrow> NoteMetadata list \<Rightarrow> NoteListResponse" where
  "paginate ops generate_preview options fs ns =
     (let start = offset options;
          end_ix = min (start + limit options) (of_nat (length ns) :: 64 word)
      in \<lparr>list_notes_items =
            map (\<lambda>i. let meta = ns ! i;
                         content = (case fs_read_string ops fs (note_path meta) of
                                      Inr c \<Rightarrow> c | Inl _ \<Rightarrow> [])
                     in to_list_item generate_preview meta content)
                [unat start ..< unat end_ix],
          total = int (length ns)\<rparr>)"

definition list_notes_query ::
  "(string \<Rightarrow> fts_row \<Rightarrow> bool) \<Rightarrow> (string \<Rightarrow> fts_row \<Rightarrow> int) \<Rightarrow> ListOptions \<Rightarrow> store \<Rightarrow>
   (error + NoteMetadata list) \<times> store" where
  "list_notes_query fts_match fts_rank options s =
     (case opt_search options of
        Some q \<Rightarrow> search_notes fts_match fts_rank q s
      | None \<Rightarrow> (case opt_tag options of
                   Some tg \<Rightarrow> get_notes_by_tag tg s
                 | None \<Rightarrow> get_all_notes s))"

definition list_notes ::
  "'fs Filesystem \<Rightarrow> (string \<Rightarrow> string) \<Rightarrow> (string \<Rightarrow> fts_row \<Rightarrow> bool) \<Rightarrow> (string \<Rightarrow> fts_row \<Rightarrow> int) \<Rightarrow>
   ListOptions \<Rightarrow> 'fs \<Rightarrow> store \<Rightarrow> (error + NoteListResponse) \<times> store" where
  "list_notes ops generate_preview fts_match fts_rank options fs s =
     (let (res, s1) = list_notes_query fts_match fts_rank options s
      in case res of
           Inl e \<Rightarrow> (Inl e, s1)
         | Inr ns \<Rightarrow> (Inr (paginate ops generate_preview options fs ns), s1))"

section \<open>The tables of a store\<close>

text \<open>
  Two stores hold the same data when they agree on every table; the list of failures to
  come is not data.
\<close>

definition tables_of :: "store \<Rightarrow> store" where
  "tables_of s = s\<lparr>db_faults := []\<rparr>"

section \<open>An in-memory content store\<close>

text \<open>
  Modelled from the spec: the Content Store (\<open>fs::Filesystem\<close> of library \<open>sap_fs\<close>) is
  missing from the repository. Section 6 of the specification gives its interface:
  \<open>read(path) -> bytes | NotFound\<close>, \<open>write(path, bytes)\<close>, \<open>remove(path)\<close>,
  \<open>mtime(path)\<close>, \<open>set_mtime(path, timestamp)\<close>. This instance keeps the content and the
  modification time of each path; as for the database, \<open>mem_faults\<close> lists whether the
  changing operations to come fail. It serves as the concrete filesystem of the examples;
  the theorems hold for every filesystem.
\<close>

record mem_fs =
  mem_files :: "(string \<times> bytes) list"
  mem_mtimes :: "(string \<times> Timestamp) list"
  mem_clock :: Timestamp
  mem_faults :: "bool list"

definition mem_call :: "mem_fs \<Rightarrow> bool \<times> mem_fs" where
  "mem_call fs = (case mem_faults fs of [] \<Rightarrow> (True, fs)
                  | f # r \<Rightarrow> (\<not> f, fs\<lparr>mem_faults := r\<rparr>))"

definition mem_read :: "mem_fs \<Rightarrow> string \<Rightarrow> error + bytes" where
  "mem_read fs p = (case map_of (mem_files fs) p of None \<Rightarrow> Inl Fs_error | Some b \<Rightarrow> Inr b)"

definition mem_read_string :: "mem_fs \<Rightarrow> string \<Rightarrow> error + string" where
  "mem_read_string fs p =
     (case map_of (mem_files fs) p of
        None \<Rightarrow> Inl Fs_error
      | Some b \<Rightarrow> Inr (map (\<lambda>w. char_of (unat w)) b))"

definition mem_write :: "mem_fs \<Rightarrow> string \<Rightarrow> bytes \<Rightarrow> (error + unit) \<times> mem_fs" where
  "mem_write fs p b =
     (let (ok, fs1) = mem_call fs
      in if ok
         then (Inr (), fs1\<lparr>mem_files := (p, b) # filter (\<lambda>(q, _). q \<noteq> p) (mem_files fs1),
                          mem_mtimes := (p, mem_clock fs1) # filter (\<lambda>(q, _). q \<noteq> p) (mem_mtimes fs1)\<rparr>)
         else (Inl Fs_error, fs1))"

definition mem_remove :: "mem_fs \<Rightarrow> string \<Rightarrow> (error + unit) \<times> mem_fs" where
  "mem_remove fs p =
     (let (ok, fs1) = mem_call fs
      in if ok
         then (Inr (), fs1\<lparr>mem_files := filter (\<lambda>(q, _). q \<noteq> p) (mem_files fs1),
                          mem_mtimes := filter (\<lambda>(q, _). q \<noteq> p) (mem_mtimes fs1)\<rparr>)
         else (Inl Fs_error, fs1))"

definition mem_mtime :: "mem_fs \<Rightarrow> string \<Rightarrow> error + Timestamp" where
  "mem_mtime fs p = (case map_of (mem_mtimes fs) p of None \<Rightarrow> Inl Fs_error | Some t \<Rightarrow> Inr t)"

definition mem_set_mtime :: "mem_fs \<Rightarrow> string \<Rightarrow> Timestamp \<Rightarrow> (error + unit) \<times> mem_fs" where
  "mem_set_mtime fs p t =
     (let (ok, fs1) = mem_call fs
      in if ok \<and> map_of (mem_files fs1) p \<noteq> None
         then (Inr (), fs1\<lparr>mem_mtimes := (p, t) # filter (\<lambda>(q, _). q \<noteq> p) (mem_mtimes fs1)\<rparr>)
         else (Inl Fs_error, fs1))"

definition mem_ops :: "mem_fs Filesystem" where
  "mem_ops = \<lparr>fs_read = mem_read, fs_read_string = mem_read_string, fs_write = mem_write,
              fs_remove = mem_remove, fs_mtime = mem_mtime, fs_set_mtime = mem_set_mtime\<rparr>"

definition empty_fs :: mem_fs where
  "empty_fs = \<lparr>mem_files = [], mem_mtimes = [], mem_clock = 0, mem_faults = []\<rparr>"

section \<open>Example stores\<close>

text \<open>Concrete stores, requests and collaborators on which the theorems are run.\<close>

definition file_a :: FileMetadata where
  "file_a = \<lparr>path = ''a.txt'', hash = ''h1'', fsize = 2, mtime = 1000, created_at = 1000,
     updated_at = 1000, is_deleted = False\<rparr>"

definition file_b :: FileMetadata where
  "file_b = \<lparr>path = ''b.txt'', hash = ''h2'', fsize = 3, mtime = 3000, created_at = 900,
     updated_at = 3000, is_deleted = True\<rparr>"

definition store_ab :: store where
  "store_ab = empty_store\<lparr>files := [file_a, file_b]\<rparr>"

definition hash_len :: "bytes \<Rightarrow> string" where
  "hash_len b = replicate (length b) CHR ''#''"

definition fs_b :: mem_fs where
  "fs_b = \<lparr>mem_files = [(''b.txt'', [104, 105])], mem_mtimes = [(''b.txt'', 4242)],
     mem_clock = 0, mem_faults = []\<rparr>"

definition meta_b :: FileMetadata where
  "meta_b = \<lparr>path = ''b.txt'', hash = ''##'', fsize = 2, mtime = 4242, created_at = 900,
     updated_at = 13, is_deleted = False\<rparr>"



definition parse_key :: "string \<Rightarrow> error + string" where
  "parse_key k = (if k = [] then Inl (Message ''empty key'') else Inr k)"

definition check_sig :: "string \<Rightarrow> string \<Rightarrow> string \<Rightarrow> error + bool" where
  "check_sig key c sg = Inr (sg = key @ c)"

definition store_ch :: store where
  "store_ch = empty_store\<lparr>auth_challenges :=
     [\<lparr>challenge = ''c1'', public_key = ''K'', challenge_expires_at = 5300\<rparr>]\<rparr>"

text \<open>
  The same store on a database whose fourth call fails: in \<open>validate_challenge\<close> these
  are the \<open>prepare\<close> and \<open>fetch_one\<close> of the lookup and the \<open>prepare\<close> and
  \<open>execute\<close> of the \<open>DELETE\<close>.
\<close>

definition store_ch_faulty :: store where
  "store_ch_faulty = store_ch\<lparr>db_faults := [False, False, False, True]\<rparr>"

definition req_good :: VerifyRequest where
  "req_good = \<lparr>req_challenge = ''c1'', req_public_key = ''K'', req_signature = ''Kc1''\<rparr>"

definition req_bad :: VerifyRequest where
  "req_bad = \<lparr>req_challenge = ''c1'', req_public_key = ''K'', req_signature = ''bad''\<rparr>"

definition token_t1 :: token_row where
  "token_t1 = \<lparr>token = ''t1'', token_created_at = 5000, token_expires_at = 8600, last_used = None\<rparr>"

definition token_t2 :: token_row where
  "token_t2 = \<lparr>token = ''t2'', token_created_at = 5000, token_expires_at = 8600, last_used = None\<rparr>"

definition note1 :: NoteMetadata where
  "note1 = \<lparr>note_id = ''n1'', note_path = ''n1.md'', title = ''T'', note_hash = ''h'',
     note_created_at = 1000, note_updated_at = 1000, note_is_deleted = False,
     meta_tags = [''x'']\<rparr>"

definition note2 :: NoteMetadata where
  "note2 = \<lparr>note_id = ''n2'', note_path = ''n2.md'', title = ''U'', note_hash = ''g'',
     note_created_at = 1500, note_updated_at = 1500, note_is_deleted = False,
     meta_tags = []\<rparr>"

definition store_n1 :: store where
  "store_n1 = empty_store\<lparr>
     notes_table := [\<lparr>note_id = ''n1'', note_path = ''n1.md'', title = ''T'', note_hash = ''h'',
        note_created_at = 1000, note_updated_at = 1000, note_is_deleted = False\<rparr>],
     tags := [\<lparr>tag_id = 1, tag_name = ''x''\<rparr>],
     note_tags := [\<lparr>nt_note_id = ''n1'', nt_tag_id = 1\<rparr>]\<rparr>"

definition store_n1_deleted :: store where
  "store_n1_deleted = empty_store\<lparr>
     notes_table := [\<lparr>note_id = ''n1'', note_path = ''n1.md'', title = ''T'', note_hash = ''h'',
        note_created_at = 1000, note_updated_at = 2000, note_is_deleted = True\<rparr>],
     tags := [\<lparr>tag_id = 1, tag_name = ''x''\<rparr>],
     note_tags := [\<lparr>nt_note_id = ''n1'', nt_tag_id = 1\<rparr>]\<rparr>"

definition store_n12 :: store where
  "store_n12 = empty_store\<lparr>
     notes_table := [\<lparr>note_id = ''n1'', note_path = ''n1.md'', title = ''T'', note_hash = ''h'',
        note_created_at = 1000, note_updated_at = 1000, note_is_deleted = False\<rparr>,
       \<lparr>note_id = ''n2'', note_path = ''n2.md'', title = ''U'', note_hash = ''g'',
        note_created_at = 1500, note_updated_at = 1500, note_is_deleted = False\<rparr>],
     tags := [\<lparr>tag_id = 1, tag_name = ''x''\<rparr>],
     note_tags := [\<lparr>nt_note_id = ''n1'', nt_tag_id = 1\<rparr>]\<rparr>"

definition fs_n1 :: mem_fs where
  "fs_n1 = \<lparr>mem_files = [(''n1.md'', [35, 32, 84])], mem_mtimes = [(''n1.md'', 1000)],
     mem_clock = 1000, mem_faults = []\<rparr>"

definition no_match :: "string \<Rightarrow> fts_row \<Rightarrow> bool" where
  "no_match q e = False"

definition no_rank :: "string \<Rightarrow> fts_row \<Rightarrow> int" where
  "no_rank q e = 0"

definition item1 :: NoteListItem where
  "item1 = \<lparr>item_id = ''n1'', item_title = ''T'', item_tags = [''x''], item_updated_at = 1000,
     preview = []\<rparr>"

definition item2 :: NoteListItem where
  "item2 = \<lparr>item_id = ''n2'', item_title = ''U'', item_tags = [], item_updated_at = 1500,
     preview = []\<rparr>"

section \<open>Facts about database calls\<close>

lemma db_try_healthy: "db_faults s = [] \<Longrightarrow> db_try s k = k s"
  by (simp add: db_try_def db_call_def)

lemma db_best_effort_healthy: "db_faults s = [] \<Longrightarrow> db_best_effort s f = f s"
  by (simp add: db_best_effort_def db_call_def)

lemma db_call_next: "db_call s = (ok, s1) \<Longrightarrow> s1 = s\<lparr>db_faults := tl (db_faults s)\<rparr>"
  by (cases "db_faults s") (auto simp: db_call_def)

lemma db_try_cases:
  "db_try s k = (r, s') \<Longrightarrow>
   (r = Inl Db_error \<and> s' = s\<lparr>db_faults := tl (db_faults s)\<rparr>) \<or>
   k (s\<lparr>db_faults := tl (db_faults s)\<rparr>) = (r, s')"
  by (auto simp: db_try_def split: prod.splits if_splits dest!: db_call_next)

lemma db_try_Inr:
  "db_try s k = (Inr x, s') \<Longrightarrow> k (s\<lparr>db_faults := tl (db_faults s)\<rparr>) = (Inr x, s')"
  by (drule db_try_cases) auto

lemma now_seconds_5000000: "now_seconds 5000000 = 5000"
  by (simp add: now_seconds_def signed_divide_int_def)

section \<open>Files: lookup, upsert, tombstone\<close>

lemma get_file_cases:
  "get_file p s = (res, s1) \<Longrightarrow>
   tables_of s1 = tables_of s \<and> (res = Inl Db_error \<or> res = Inr (find (\<lambda>r. path r = p) (files s)))"
  unfolding get_file_def
  by (auto dest!: db_try_cases simp: tables_of_def)

lemma get_file_healthy:
  "db_faults s = [] \<Longrightarrow> get_file p s = (Inr (find (\<lambda>r. path r = p) (files s)), s)"
  by (simp add: get_file_def db_try_healthy)

lemma get_all_files_result:
  "get_all_files since s = (Inr fl, s1) \<Longrightarrow>
   fl = (case since of None \<Rightarrow> files s | Some t \<Rightarrow> filter (\<lambda>r. updated_at r > t) (files s))"
  unfolding get_all_files_def
  by (drule db_try_Inr, drule db_try_Inr) (auto split: option.splits)

lemma find_upsert_row:
  "find (\<lambda>r. path r = path meta) rows = Some ex \<Longrightarrow>
   find (\<lambda>r. path r = path meta) (upsert_row meta rows) =
     Some (ex\<lparr>hash := hash meta, fsize := fsize meta, mtime := mtime meta,
              updated_at := updated_at meta, is_deleted := is_deleted meta\<rparr>)"
proof (induction rows)
  case Nil
  then show ?case by simp
next
  case (Cons r rows)
  show ?case
  proof (cases "path r = path meta")
    case True
    with Cons.prems show ?thesis by (simp add: upsert_row_def)
  next
    case False
    with Cons show ?thesis by (simp add: upsert_row_def)
  qed
qed

lemma upsert_row_frame:
  "find (\<lambda>r. path r = path meta) rows = Some ex \<Longrightarrow>
   map created_at (upsert_row meta rows) = map created_at rows \<and>
   map path (upsert_row meta rows) = map path rows"
  by (simp add: upsert_row_def)

lemma upsert_file_cases:
  "upsert_file meta s = (res, s') \<Longrightarrow>
   (res = Inl Db_error \<and> files s' = files s) \<or>
   (res = Inr () \<and> files s' = upsert_row meta (files s))"
  unfolding upsert_file_def
  by (auto dest!: db_try_cases)

lemma upsert_file_healthy:
  "db_faults s = [] \<Longrightarrow> upsert_file meta s = (Inr (), s\<lparr>files := upsert_row meta (files s)\<rparr>)"
  by (simp add: upsert_file_def db_try_healthy)

lemma find_mark:
  "find (\<lambda>r. path r = p)
     (map (\<lambda>r. if path r = p then r\<lparr>is_deleted := True, updated_at := now\<rparr> else r) rows) =
   map_option (\<lambda>r. r\<lparr>is_deleted := True, updated_at := now\<rparr>) (find (\<lambda>r. path r = p) rows)"
  by (induction rows) auto

lemma mark_deleted_cases:
  "mark_deleted now p s = (res, s') \<Longrightarrow>
   (res = Inl Db_error \<and> files s' = files s) \<or>
   (res = Inr () \<and>
    files s' = map (\<lambda>r. if path r = p then r\<lparr>is_deleted := True, updated_at := now\<rparr> else r) (files s))"
  unfolding mark_deleted_def
  by (auto dest!: db_try_cases)

lemma delete_file_result:
  "FileService_delete_file ops now p fs s = (res, fs1, s1) \<Longrightarrow>
   fs1 = snd (fs_remove ops fs p) \<and> mark_deleted now p s = (res, s1)"
  by (auto simp: FileService_delete_file_def Let_def split: prod.splits sum.splits)

lemma build_metadata_fields:
  "build_metadata ops hash_bytes now_m now_c now_u p content fs = Inr m \<Longrightarrow>
   path m = p \<and> hash m = hash_bytes content \<and> fsize m = int (length content) \<and>
   created_at m = now_c \<and> updated_at m = now_u \<and> \<not> is_deleted m"
  by (auto simp: build_metadata_def)

section \<open>Delta sync\<close>

text \<open>
  Claim C3. For every timestamp \<open>T\<close> and every store, the files of \<open>get_sync_state(T)\<close>
  are exactly the file records whose \<open>updated_at\<close> is strictly greater than \<open>T\<close>;
  a tombstone is returned like any other record. The call returns whenever the
  database does not fail, and whenever it returns the files are these.
\<close>

theorem get_sync_state_since:
  "(db_faults s = [] \<longrightarrow>
      get_sync_state now (Some T) s =
        (Inr \<lparr>server_time = now, sync_files = filter (\<lambda>r. T < updated_at r) (files s)\<rparr>, s)) \<and>
   (\<forall>st s1. get_sync_state now (Some T) s = (Inr st, s1) \<longrightarrow>
      sync_files st = filter (\<lambda>r. T < updated_at r) (files s) \<and>
      set (sync_files st) = {r \<in> set (files s). T < updated_at r} \<and>
      (\<forall>r \<in> set (files s). is_deleted r \<and> T < updated_at r \<longrightarrow> r \<in> set (sync_files st)))"
proof (intro conjI impI allI)
  assume "db_faults s = []"
  then show "get_sync_state now (Some T) s =
        (Inr \<lparr>server_time = now, sync_files = filter (\<lambda>r. T < updated_at r) (files s)\<rparr>, s)"
    by (simp add: get_sync_state_def FileService_get_changed_since_def get_all_files_def db_try_healthy)
next
  fix st s1
  assume a: "get_sync_state now (Some T) s = (Inr st, s1)"
  then obtain fl where "get_all_files (Some T) s = (Inr fl, s1)" and "sync_files st = fl"
    by (auto simp: get_sync_state_def FileService_get_changed_since_def split: prod.splits sum.splits)
  then show f: "sync_files st = filter (\<lambda>r. T < updated_at r) (files s)"
    by (auto dest: get_all_files_result)
  show "set (sync_files st) = {r \<in> set (files s). T < updated_at r}"
    unfolding f by auto
  show "\<forall>r \<in> set (files s). is_deleted r \<and> T < updated_at r \<longrightarrow> r \<in> set (sync_files st)"
    unfolding f by auto
qed

text \<open>
  On the store of \<open>a.txt\<close> (updated at 1000) and the tombstone \<open>b.txt\<close> (updated at
  3000), the state since 2000 is the tombstone alone.
\<close>

theorem get_sync_state_since_witness:
  "db_faults store_ab = [] \<and>
   get_sync_state 5000 (Some 2000) store_ab = (Inr \<lparr>server_time = 5000, sync_files = [file_b]\<rparr>, store_ab) \<and>
   is_deleted file_b"
  using get_sync_state_since [of store_ab 5000 2000]
  by (simp add: store_ab_def empty_store_def file_a_def file_b_def)

section \<open>Upsert keeps the creation time\<close>

text \<open>
  Claim C9. \<open>upsert_file\<close> on a path that has a row never changes the stored
  \<open>created_at\<close>, whatever \<open>created_at\<close> the given record carries and whether the
  statement succeeds or fails: the row of that path keeps it, and on success the row is
  the old one with \<open>hash\<close>, \<open>size\<close>, \<open>mtime\<close>, \<open>updated_at\<close> and \<open>is_deleted\<close>
  replaced. No row changes its path or its creation time.
\<close>

theorem upsert_file_keeps_created_at:
  assumes "find (\<lambda>r. path r = path meta) (files s) = Some ex"
      and "upsert_file meta s = (res, s')"
  shows "(\<exists>r. find (\<lambda>r. path r = path meta) (files s') = Some r \<and>
              created_at r = created_at ex \<and>
              (res = Inr () \<longrightarrow>
                 r = ex\<lparr>hash := hash meta, fsize := fsize meta, mtime := mtime meta,
                        updated_at := updated_at meta, is_deleted := is_deleted meta\<rparr>)) \<and>
         map created_at (files s') = map created_at (files s) \<and>
         map path (files s') = map path (files s)"
  using upsert_file_cases [OF assms(2)] find_upsert_row [OF assms(1)]
    upsert_row_frame [OF assms(1)] assms(1)
  by auto

text \<open>
  \<open>a.txt\<close> was created at 1000; an upsert that carries \<open>created_at = 7777\<close> and a new
  hash changes the hash and leaves 1000.
\<close>

theorem upsert_file_keeps_created_at_witness:
  "find (\<lambda>r. path r = path (file_a\<lparr>created_at := 7777, hash := ''h9''\<rparr>)) (files store_ab) = Some file_a \<and>
   upsert_file (file_a\<lparr>created_at := 7777, hash := ''h9''\<rparr>) store_ab =
     (Inr (), store_ab\<lparr>files := [file_a\<lparr>hash := ''h9''\<rparr>, file_b]\<rparr>) \<and>
   map created_at (files (store_ab\<lparr>files := [file_a\<lparr>hash := ''h9''\<rparr>, file_b]\<rparr>)) = [1000, 900]"
proof -
  have l: "find (\<lambda>r. path r = path (file_a\<lparr>created_at := 7777, hash := ''h9''\<rparr>)) (files store_ab) = Some file_a"
    by (simp add: store_ab_def file_a_def)
  have u: "upsert_file (file_a\<lparr>created_at := 7777, hash := ''h9''\<rparr>) store_ab =
     (Inr (), store_ab\<lparr>files := [file_a\<lparr>hash := ''h9''\<rparr>, file_b]\<rparr>)"
    by (simp add: upsert_file_healthy store_ab_def empty_store_def upsert_row_def file_a_def file_b_def)
  from upsert_file_keeps_created_at [OF l u] l u show ?thesis
    by (simp add: store_ab_def file_a_def file_b_def)
qed

section \<open>Writing a file\<close>

text \<open>
  Claim C7. When the write to the content store fails inside \<open>put_file\<close>, the call
  returns that error and every table of the metadata store is as before: the only
  database call made is the lookup of the existing record.
\<close>

theorem put_file_write_failure:
  assumes "fs_write ops fs p content = (Inl e, fs1)"
      and "FileService_put_file ops hash_bytes now now_m now_c now_u p content client_mtime fs s
             = (res, fs', s')"
  shows "res = Inl e \<and> fs' = fs1 \<and> tables_of s' = tables_of s"
proof -
  obtain r0 s0 where g: "get_file p s = (r0, s0)" by (cases "get_file p s")
  from assms g have "res = Inl e" "fs' = fs1" "s' = s0"
    by (auto simp: FileService_put_file_def Let_def)
  with get_file_cases [OF g] show ?thesis by simp
qed

text \<open>A filesystem whose next operation fails: the store of two files is returned as it was.\<close>

theorem put_file_write_failure_witness:
  "fs_write mem_ops (empty_fs\<lparr>mem_faults := [True]\<rparr>) ''a.txt'' [104, 105] = (Inl Fs_error, empty_fs) \<and>
   FileService_put_file mem_ops hash_len 10 11 12 13 ''a.txt'' [104, 105] None
       (empty_fs\<lparr>mem_faults := [True]\<rparr>) store_ab = (Inl Fs_error, empty_fs, store_ab) \<and>
   tables_of store_ab = tables_of store_ab"
proof -
  have w: "fs_write mem_ops (empty_fs\<lparr>mem_faults := [True]\<rparr>) ''a.txt'' [104, 105] = (Inl Fs_error, empty_fs)"
    by (simp add: mem_ops_def mem_write_def mem_call_def empty_fs_def)
  have g: "get_file ''a.txt'' store_ab = (Inr (Some file_a), store_ab)"
    by (simp add: get_file_def db_try_healthy store_ab_def empty_store_def file_a_def)
  have p: "FileService_put_file mem_ops hash_len 10 11 12 13 ''a.txt'' [104, 105] None
       (empty_fs\<lparr>mem_faults := [True]\<rparr>) store_ab = (Inl Fs_error, empty_fs, store_ab)"
    by (simp add: FileService_put_file_def g w)
  from put_file_write_failure [OF w p] w p show ?thesis by simp
qed

text \<open>
  Claim C6. Let path \<open>p\<close> have a metadata record \<open>ex\<close>, tombstoned or not, and let
  \<open>put_file\<close> succeed. Then the bytes were written to the content store first, on the
  filesystem as the call found it, and the client's modification time, when given, was
  applied to the written file; the metadata is the old table with one upsert: the row of
  \<open>p\<close> keeps the \<open>created_at\<close> of \<open>ex\<close>, its hash and size are those of the bytes, its
  \<open>mtime\<close> is the client's when given, and it is not a tombstone. When the lookup of the
  old record did not fail, the returned record carries the original \<open>created_at\<close> too.
\<close>

theorem put_file_existing:
  assumes ex: "find (\<lambda>r. path r = p) (files s) = Some ex"
      and put: "FileService_put_file ops hash_bytes now now_m now_c now_u p content client_mtime fs s
             = (Inr meta, fs', s')"
  shows "(\<exists>fs1. fs_write ops fs p content = (Inr (), fs1) \<and>
            (case client_mtime of
               None \<Rightarrow> fs' = fs1
             | Some t \<Rightarrow> fs_set_mtime ops fs1 p t = (Inr (), fs'))) \<and>
         files s' = upsert_row meta (files s) \<and>
         (\<exists>r. find (\<lambda>r. path r = p) (files s') = Some r \<and>
              created_at r = created_at ex \<and>
              hash r = hash_bytes content \<and> fsize r = int (length content) \<and>
              (\<forall>t. client_mtime = Some t \<longrightarrow> mtime r = t) \<and>
              updated_at r = now_u \<and> \<not> is_deleted r) \<and>
         path meta = p \<and> hash meta = hash_bytes content \<and> fsize meta = int (length content) \<and>
         (\<forall>t. client_mtime = Some t \<longrightarrow> mtime meta = t) \<and>
         (db_faults s = [] \<longrightarrow> created_at meta = created_at ex)"
proof -
  obtain r0 s0 where g: "get_file p s = (r0, s0)" by (cases "get_file p s")
  obtain wr fs1 where w: "fs_write ops fs p content = (wr, fs1)" by (cases "fs_write ops fs p content")
  from put g w have wr: "wr = Inr ()"
    by (cases wr) (auto simp: FileService_put_file_def Let_def)
  define sm where "sm = (case client_mtime of None \<Rightarrow> (Inr (), fs1) | Some t \<Rightarrow> fs_set_mtime ops fs1 p t)"
  obtain res fs2 where sm_eq: "sm = (res, fs2)" by (cases sm)
  from put g w wr sm_eq have res: "res = Inr ()"
    by (cases res) (auto simp: FileService_put_file_def Let_def sm_def)
  obtain meta0 where b: "build_metadata ops hash_bytes now_m now_c now_u p content fs2 = Inr meta0"
    by (simp add: build_metadata_def)
  define created where "created = (case r0 of Inr (Some e) \<Rightarrow> created_at e | _ \<Rightarrow> now)"
  define m where "m = (case client_mtime of None \<Rightarrow> meta0\<lparr>created_at := created\<rparr>
                        | Some t \<Rightarrow> meta0\<lparr>created_at := created, mtime := t\<rparr>)"
  obtain ur s2 where u: "upsert_file m s0 = (ur, s2)" by (cases "upsert_file m s0")
  from put g w wr sm_eq res b u
  have fin: "ur = Inr ()" "meta = m" "fs' = fs2" "s' = s2"
    by (cases ur; auto simp: FileService_put_file_def Let_def sm_def m_def created_def
          split: option.splits)+
  have pm: "path m = p" "hash m = hash_bytes content" "fsize m = int (length content)"
    "updated_at m = now_u" "\<not> is_deleted m" "\<forall>t. client_mtime = Some t \<longrightarrow> mtime m = t"
    using build_metadata_fields [OF b] by (auto simp: m_def split: option.splits)
  from get_file_cases [OF g] have f0: "files s0 = files s"
    by (auto simp: tables_of_def dest: arg_cong [where f = files])
  with ex pm have ex0: "find (\<lambda>r. path r = path m) (files s0) = Some ex" by simp
  from upsert_file_cases [OF u] fin have f2: "files s' = upsert_row m (files s0)" by auto
  have row: "find (\<lambda>r. path r = p) (files s') =
     Some (ex\<lparr>hash := hash m, fsize := fsize m, mtime := mtime m,
              updated_at := updated_at m, is_deleted := is_deleted m\<rparr>)"
    using find_upsert_row [OF ex0] f2 pm by simp
  have fsok: "case client_mtime of None \<Rightarrow> fs' = fs1
              | Some t \<Rightarrow> fs_set_mtime ops fs1 p t = (Inr (), fs')"
    using sm_eq res fin by (auto simp: sm_def split: option.splits)
  have cr: "db_faults s = [] \<longrightarrow> created_at m = created_at ex"
  proof
    assume "db_faults s = []"
    from get_file_healthy [OF this, of p] g ex have "r0 = Inr (Some ex)" by simp
    then show "created_at m = created_at ex"
      by (simp add: m_def created_def split: option.splits)
  qed
  show ?thesis
    using w wr fsok row pm fin f2 f0 cr by auto
qed

text \<open>
  A put on the tombstoned \<open>b.txt\<close> (created at 900) with a client time of 4242: the file
  holds the two bytes, and the record is live again with the creation time 900.
\<close>

theorem put_file_existing_witness:
  "find (\<lambda>r. path r = ''b.txt'') (files store_ab) = Some file_b \<and> is_deleted file_b \<and>
   FileService_put_file mem_ops hash_len 10 11 12 13 ''b.txt'' [104, 105] (Some 4242) empty_fs store_ab
     = (Inr meta_b, fs_b, store_ab\<lparr>files := [file_a, meta_b]\<rparr>) \<and>
   fs_read mem_ops fs_b ''b.txt'' = Inr [104, 105] \<and>
   created_at meta_b = created_at file_b"
proof -
  have l: "find (\<lambda>r. path r = ''b.txt'') (files store_ab) = Some file_b"
    by (simp add: store_ab_def file_a_def file_b_def)
  have g: "get_file ''b.txt'' store_ab = (Inr (Some file_b), store_ab)"
    by (simp add: get_file_def db_try_healthy store_ab_def empty_store_def file_a_def file_b_def)
  have w: "fs_write mem_ops empty_fs ''b.txt'' [104, 105] =
      (Inr (), \<lparr>mem_files = [(''b.txt'', [104, 105])], mem_mtimes = [(''b.txt'', 0)],
                mem_clock = 0, mem_faults = []\<rparr>)"
    by (simp add: mem_ops_def mem_write_def mem_call_def empty_fs_def)
  have m: "fs_set_mtime mem_ops \<lparr>mem_files = [(''b.txt'', [104, 105])], mem_mtimes = [(''b.txt'', 0)],
                mem_clock = 0, mem_faults = []\<rparr> ''b.txt'' 4242 = (Inr (), fs_b)"
    by (simp add: mem_ops_def mem_set_mtime_def mem_call_def fs_b_def)
  have b: "build_metadata mem_ops hash_len 11 12 13 ''b.txt'' [104, 105] fs_b =
      Inr (meta_b\<lparr>created_at := 12\<rparr>)"
    by (simp add: build_metadata_def mem_ops_def mem_mtime_def fs_b_def meta_b_def hash_len_def)
  have u: "upsert_file meta_b store_ab = (Inr (), store_ab\<lparr>files := [file_a, meta_b]\<rparr>)"
    by (simp add: upsert_file_healthy store_ab_def empty_store_def upsert_row_def file_a_def
          file_b_def meta_b_def)
  have m2: "meta_b\<lparr>created_at := 900, mtime := 4242\<rparr> = meta_b" by (simp add: meta_b_def)
  have p: "FileService_put_file mem_ops hash_len 10 11 12 13 ''b.txt'' [104, 105] (Some 4242) empty_fs store_ab
     = (Inr meta_b, fs_b, store_ab\<lparr>files := [file_a, meta_b]\<rparr>)"
    by (simp add: FileService_put_file_def g w m b u m2) (simp add: file_b_def m2 u)
  from put_file_existing [OF l p] l p show ?thesis
    by (simp add: file_b_def meta_b_def mem_ops_def mem_read_def fs_b_def)
qed

section \<open>Deleting a file\<close>

text \<open>
  As stated for all paths, the property of claim C4 fails: \<open>mark_deleted\<close> is an
  \<open>UPDATE\<close>, which succeeds on a path that has no row and writes nothing. Deleting
  \<open>zz.txt\<close> from the store of \<open>a.txt\<close> and \<open>b.txt\<close> succeeds, and the list of files
  afterwards holds no record of \<open>zz.txt\<close>.
\<close>

theorem delete_unknown_path_counterexample:
  "FileService_delete_file mem_ops 5000 ''zz.txt'' empty_fs store_ab = (Inr (), empty_fs, store_ab) \<and>
   FileService_list_files store_ab = (Inr [file_a, file_b], store_ab) \<and>
   path file_a \<noteq> ''zz.txt'' \<and> path file_b \<noteq> ''zz.txt''"
  by (simp add: FileService_delete_file_def mark_deleted_def db_try_healthy mem_ops_def
        mem_remove_def mem_call_def empty_fs_def store_ab_def empty_store_def file_a_def file_b_def
        FileService_list_files_def get_all_files_def)

text \<open>
  Claim C4, amended. For every path \<open>p\<close> that has a metadata record: after
  \<open>delete_file(p)\<close> succeeds, \<open>get_file(p)\<close> never returns content, and every list
  that \<open>list_files\<close> returns holds a record of \<open>p\<close> with \<open>is_deleted\<close> set. When the
  database calls of the two reads do not fail, \<open>get_file(p)\<close> fails with
  \<open>File not found\<close> and \<open>list_files\<close> returns the tombstone of the old record.
\<close>

theorem delete_file_then_get:
  assumes rec: "find (\<lambda>r. path r = p) (files s) = Some ex"
      and del: "FileService_delete_file ops now p fs s = (Inr (), fs1, s1)"
  shows "(\<forall>b s2. FileService_get_file ops p fs1 s1 \<noteq> (Inr b, s2)) \<and>
         (\<forall>fl s2. FileService_list_files s1 = (Inr fl, s2) \<longrightarrow>
            (\<exists>r \<in> set fl. path r = p \<and> is_deleted r)) \<and>
         (db_faults s1 = [] \<longrightarrow>
            FileService_get_file ops p fs1 s1 = (Inl (Message ''File not found''), s1) \<and>
            (\<exists>fl. FileService_list_files s1 = (Inr fl, s1) \<and>
                  ex\<lparr>is_deleted := True, updated_at := now\<rparr> \<in> set fl))"
proof -
  from delete_file_result [OF del] have md: "mark_deleted now p s = (Inr (), s1)" by simp
  from mark_deleted_cases [OF md]
  have fl: "files s1 = map (\<lambda>r. if path r = p then r\<lparr>is_deleted := True, updated_at := now\<rparr> else r) (files s)"
    by simp
  have row: "find (\<lambda>r. path r = p) (files s1) = Some (ex\<lparr>is_deleted := True, updated_at := now\<rparr>)"
    unfolding fl find_mark using rec by simp
  then have mem: "ex\<lparr>is_deleted := True, updated_at := now\<rparr> \<in> set (files s1)"
    by (auto simp: find_Some_iff)
  from rec have pex: "path ex = p" by (auto simp: find_Some_iff)
  have a: "\<forall>b s2. FileService_get_file ops p fs1 s1 \<noteq> (Inr b, s2)"
  proof (intro allI notI)
    fix b s2 assume g: "FileService_get_file ops p fs1 s1 = (Inr b, s2)"
    obtain r0 s0 where g0: "get_file p s1 = (r0, s0)" by (cases "get_file p s1")
    from get_file_cases [OF g0] row
    have "r0 = Inl Db_error \<or> r0 = Inr (Some (ex\<lparr>is_deleted := True, updated_at := now\<rparr>))" by simp
    with g g0 show False by (auto simp: FileService_get_file_def)
  qed
  have b: "\<forall>fl s2. FileService_list_files s1 = (Inr fl, s2) \<longrightarrow> (\<exists>r \<in> set fl. path r = p \<and> is_deleted r)"
  proof (intro allI impI)
    fix fl s2 assume "FileService_list_files s1 = (Inr fl, s2)"
    then have "fl = files s1"
      by (auto simp: FileService_list_files_def dest: get_all_files_result)
    with mem pex show "\<exists>r \<in> set fl. path r = p \<and> is_deleted r"
      by (intro bexI [where x = "ex\<lparr>is_deleted := True, updated_at := now\<rparr>"]) auto
  qed
  have c: "db_faults s1 = [] \<longrightarrow>
            FileService_get_file ops p fs1 s1 = (Inl (Message ''File not found''), s1) \<and>
            (\<exists>fl. FileService_list_files s1 = (Inr fl, s1) \<and>
                  ex\<lparr>is_deleted := True, updated_at := now\<rparr> \<in> set fl)"
    using row mem
    by (auto simp: FileService_get_file_def get_file_def FileService_list_files_def
          get_all_files_def db_try_healthy)
  from a b c show ?thesis by blast
qed

text \<open>Deleting \<open>a.txt\<close>, which has a record: the read fails and the tombstone is listed.\<close>

theorem delete_file_then_get_witness:
  "find (\<lambda>r. path r = ''a.txt'') (files store_ab) = Some file_a \<and>
   FileService_delete_file mem_ops 5000 ''a.txt'' empty_fs store_ab =
     (Inr (), empty_fs, store_ab\<lparr>files := [file_a\<lparr>is_deleted := True, updated_at := 5000\<rparr>, file_b]\<rparr>) \<and>
   FileService_get_file mem_ops ''a.txt'' empty_fs
       (store_ab\<lparr>files := [file_a\<lparr>is_deleted := True, updated_at := 5000\<rparr>, file_b]\<rparr>) =
     (Inl (Message ''File not found''),
      store_ab\<lparr>files := [file_a\<lparr>is_deleted := True, updated_at := 5000\<rparr>, file_b]\<rparr>)"
proof -
  let ?s1 = "store_ab\<lparr>files := [file_a\<lparr>is_deleted := True, updated_at := 5000\<rparr>, file_b]\<rparr>"
  have l: "find (\<lambda>r. path r = ''a.txt'') (files store_ab) = Some file_a"
    by (simp add: store_ab_def file_a_def)
  have d: "FileService_delete_file mem_ops 5000 ''a.txt'' empty_fs store_ab = (Inr (), empty_fs, ?s1)"
    by (simp add: FileService_delete_file_def mark_deleted_def db_try_healthy mem_ops_def
        mem_remove_def mem_call_def empty_fs_def store_ab_def empty_store_def file_a_def file_b_def)
  have h: "db_faults ?s1 = []" by (simp add: store_ab_def empty_store_def)
  from delete_file_then_get [OF l d] h l d show ?thesis by blast
qed

section \<open>A failed removal of the content\<close>

text \<open>
  For files the removal is best effort: whatever \<open>remove\<close> answers, \<open>delete_file\<close>
  returns what the tombstone write returns. For notes a failed \<open>remove\<close> is returned
  at once.
\<close>

lemma delete_file_remove_failure_not_fatal:
  "fs_remove ops fs p = (Inl e, fs1) \<Longrightarrow> mark_deleted now p s = (res, s1) \<Longrightarrow>
   FileService_delete_file ops now p fs s = (res, fs1, s1)"
  by (cases res) (auto simp: FileService_delete_file_def)

lemma delete_note_remove_failure_fatal:
  "get_note i s = (Inr (Some m), s1) \<Longrightarrow> fs_remove ops fs (note_path m) = (Inl e, fs1) \<Longrightarrow>
   NoteService_delete_note ops now i fs s = (Inl e, fs1, s1)"
  by (simp add: NoteService_delete_note_def)

text \<open>
  Claim C5 does not hold of \<open>NoteService::delete_note\<close>. Note \<open>n1\<close> has a record and
  the removal of \<open>n1.md\<close> fails: the call returns the filesystem's error and the record
  is not tombstoned, where the claim wants the failure logged, the tombstone written and
  success reported. On the same filesystem \<open>FileService::delete_file\<close> does what the
  claim says: it succeeds and \<open>a.txt\<close> is tombstoned.
\<close>

theorem delete_note_aborts_on_remove_failure:
  "fs_remove mem_ops (fs_n1\<lparr>mem_faults := [True]\<rparr>) ''n1.md'' = (Inl Fs_error, fs_n1) \<and>
   NoteService_delete_note mem_ops 2000 ''n1'' (fs_n1\<lparr>mem_faults := [True]\<rparr>) store_n1 =
     (Inl Fs_error, fs_n1, store_n1) \<and>
   map note_is_deleted (notes_table store_n1) = [False] \<and>
   FileService_delete_file mem_ops 2000 ''a.txt'' (fs_n1\<lparr>mem_faults := [True]\<rparr>) store_ab =
     (Inr (), fs_n1, store_ab\<lparr>files := [file_a\<lparr>is_deleted := True, updated_at := 2000\<rparr>, file_b]\<rparr>)"
proof -
  have r: "fs_remove mem_ops (fs_n1\<lparr>mem_faults := [True]\<rparr>) p = (Inl Fs_error, fs_n1)" for p
    by (simp add: mem_ops_def mem_remove_def mem_call_def fs_n1_def)
  have g: "get_note ''n1'' store_n1 = (Inr (Some (note1\<lparr>meta_tags := [''x'']\<rparr>)), store_n1)"
    by (simp add: get_note_def db_try_healthy store_n1_def empty_store_def to_meta_def
          note_tag_names_def left_join_def group_concat_def parse_tags_def note1_def)
  have n: "NoteService_delete_note mem_ops 2000 ''n1'' (fs_n1\<lparr>mem_faults := [True]\<rparr>) store_n1 =
     (Inl Fs_error, fs_n1, store_n1)"
    by (simp add: NoteService_delete_note_def g) (simp add: note1_def r)
  have f: "FileService_delete_file mem_ops 2000 ''a.txt'' (fs_n1\<lparr>mem_faults := [True]\<rparr>) store_ab =
     (Inr (), fs_n1, store_ab\<lparr>files := [file_a\<lparr>is_deleted := True, updated_at := 2000\<rparr>, file_b]\<rparr>)"
    by (simp add: FileService_delete_file_def r mark_deleted_def db_try_healthy store_ab_def
          empty_store_def file_a_def file_b_def)
  from r n f show ?thesis by (simp add: store_n1_def empty_store_def)
qed

section \<open>Tokens\<close>



lemma store_token_frame:
  "store_token now tok e s = (r, s') \<Longrightarrow>
   auth_challenges s' = auth_challenges s \<and> (db_faults s = [] \<longrightarrow> db_faults s' = [])"
  unfolding store_token_def Let_def
  by (auto dest!: db_try_cases split: if_splits)




section \<open>Challenges\<close>

lemma validate_challenge_healthy:
  "db_faults s = [] \<Longrightarrow>
   validate_challenge now c k s =
     (if find (\<lambda>r. challenge r = c \<and> public_key r = k \<and> now_seconds now < challenge_expires_at r)
           (auth_challenges s) = None
      then (Inr False, s)
      else (Inr True, s\<lparr>auth_challenges := filter (\<lambda>r. challenge r \<noteq> c) (auth_challenges s)\<rparr>))"
  by (simp add: validate_challenge_def Let_def db_try_healthy db_best_effort_healthy)

text \<open>What a call of \<open>verify_challenge\<close> that found its challenge leaves behind.\<close>

lemma verify_challenge_consumes:
  assumes healthy: "db_faults s = []"
      and row: "find (\<lambda>r. challenge r = req_challenge req \<and> public_key r = req_public_key req \<and>
                     now_seconds now_v < challenge_expires_at r) (auth_challenges s) \<noteq> None"
      and call: "verify_challenge ppk vsig tok te now_v now_t now_s req s = (r1, s1)"
  shows "db_faults s1 = [] \<and> req_challenge req \<notin> challenge ` set (auth_challenges s1)"
proof -
  let ?s0 = "s\<lparr>auth_challenges := filter (\<lambda>r. challenge r \<noteq> req_challenge req) (auth_challenges s)\<rparr>"
  have v: "validate_challenge now_v (req_challenge req) (req_public_key req) s = (Inr True, ?s0)"
    using healthy row by (simp add: validate_challenge_healthy)
  have p0: "db_faults ?s0 = [] \<and> req_challenge req \<notin> challenge ` set (auth_challenges ?s0)"
    using healthy by auto
  have "s1 = ?s0 \<or> (\<exists>r e now. store_token now tok e ?s0 = (r, s1))"
    using call unfolding verify_challenge_def v
    by (auto simp: Let_def split: sum.splits bool.splits prod.splits)
  then show ?thesis
  proof
    assume "s1 = ?s0" with p0 show ?thesis by simp
  next
    assume "\<exists>r e now. store_token now tok e ?s0 = (r, s1)"
    then obtain r e now where "store_token now tok e ?s0 = (r, s1)" by blast
    from store_token_frame [OF this] p0 show ?thesis by simp
  qed
qed

lemma verify_challenge_found:
  assumes healthy: "db_faults s = []"
      and call: "verify_challenge ppk vsig tok te now_v now_t now_s req s = (r1, s1)"
      and res: "(\<exists>t. r1 = Inr t) \<or> r1 = Inl (Message ''Signature verification failed'')"
  shows "find (\<lambda>r. challenge r = req_challenge req \<and> public_key r = req_public_key req \<and>
                     now_seconds now_v < challenge_expires_at r) (auth_challenges s) \<noteq> None"
proof (rule ccontr)
  assume "\<not> ?thesis"
  then have "validate_challenge now_v (req_challenge req) (req_public_key req) s = (Inr False, s)"
    using healthy by (simp add: validate_challenge_healthy)
  with call have "r1 = Inl (Message ''Invalid or expired challenge'')"
    by (simp add: verify_challenge_def)
  with res show False by auto
qed

text \<open>
  When no database call fails, a challenge is consumed by the lookup. Let a first
  \<open>verify_challenge\<close> meet a valid challenge (a row of that challenge and key that has
  not expired), as it does whenever it returns a token or fails on the signature. Then
  every later \<open>verify_challenge\<close> of the same challenge, with whatever key, signature
  and clock, fails with \<open>Invalid or expired challenge\<close>.
\<close>

lemma verify_challenge_single_use_healthy:
  assumes healthy: "db_faults s = []"
      and first: "verify_challenge ppk vsig tok te now_v now_t now_s req s = (r1, s1)"
      and valid: "find (\<lambda>r. challenge r = req_challenge req \<and> public_key r = req_public_key req \<and>
                     now_seconds now_v < challenge_expires_at r) (auth_challenges s) \<noteq> None \<or>
                  (\<exists>t. r1 = Inr t) \<or> r1 = Inl (Message ''Signature verification failed'')"
      and same: "req_challenge req' = req_challenge req"
  shows "verify_challenge ppk' vsig' tok' te' now_v' now_t' now_s' req' s1 =
           (Inl (Message ''Invalid or expired challenge''), s1)"
proof -
  from valid verify_challenge_found [OF healthy first]
  have row: "find (\<lambda>r. challenge r = req_challenge req \<and> public_key r = req_public_key req \<and>
                     now_seconds now_v < challenge_expires_at r) (auth_challenges s) \<noteq> None"
    by blast
  from verify_challenge_consumes [OF healthy row first]
  have h1: "db_faults s1 = []" and gone: "req_challenge req \<notin> challenge ` set (auth_challenges s1)"
    by simp_all
  from gone same
  have "find (\<lambda>r. challenge r = req_challenge req' \<and> public_key r = req_public_key req' \<and>
                     now_seconds now_v' < challenge_expires_at r) (auth_challenges s1) = None"
    by (force simp: find_None_iff image_iff)
  with h1 have "validate_challenge now_v' (req_challenge req') (req_public_key req') s1 = (Inr False, s1)"
    by (simp add: validate_challenge_healthy)
  then show ?thesis by (simp add: verify_challenge_def)
qed

text \<open>
  Challenge \<open>c1\<close> of key \<open>K\<close> expires at 5300. At second 5000 and without database
  failures a wrong signature is refused; the correct signature \<open>Kc1\<close>, which on the
  untouched store would have been given a token, is then refused as well.
\<close>

lemma verify_challenge_single_use_healthy_example:
  "db_faults store_ch = [] \<and>
   verify_challenge parse_key check_sig ''t1'' 3600 5000000 5000000 5000000
      \<lparr>req_challenge = ''c1'', req_public_key = ''K'', req_signature = ''bad''\<rparr> store_ch =
     (Inl (Message ''Signature verification failed''), empty_store) \<and>
   verify_challenge parse_key check_sig ''t2'' 3600 5000000 5000000 5000000
      \<lparr>req_challenge = ''c1'', req_public_key = ''K'', req_signature = ''Kc1''\<rparr> empty_store =
     (Inl (Message ''Invalid or expired challenge''), empty_store) \<and>
   verify_challenge parse_key check_sig ''t2'' 3600 5000000 5000000 5000000
      \<lparr>req_challenge = ''c1'', req_public_key = ''K'', req_signature = ''Kc1''\<rparr> store_ch =
     (Inr \<lparr>auth_token = ''t2'', auth_expires_at = 8600\<rparr>,
      empty_store\<lparr>auth_tokens := [\<lparr>token = ''t2'', token_created_at = 5000,
         token_expires_at = 8600, last_used = None\<rparr>]\<rparr>)"
proof -
  have h: "db_faults store_ch = []" by (simp add: store_ch_def empty_store_def)
  have f: "verify_challenge parse_key check_sig ''t1'' 3600 5000000 5000000 5000000
      \<lparr>req_challenge = ''c1'', req_public_key = ''K'', req_signature = ''bad''\<rparr> store_ch =
     (Inl (Message ''Signature verification failed''), empty_store)"
    by (simp add: verify_challenge_def validate_challenge_healthy store_ch_def empty_store_def
          now_seconds_5000000 parse_key_def check_sig_def)
  have g: "verify_challenge parse_key check_sig ''t2'' 3600 5000000 5000000 5000000
      \<lparr>req_challenge = ''c1'', req_public_key = ''K'', req_signature = ''Kc1''\<rparr> store_ch =
     (Inr \<lparr>auth_token = ''t2'', auth_expires_at = 8600\<rparr>,
      empty_store\<lparr>auth_tokens := [\<lparr>token = ''t2'', token_created_at = 5000,
         token_expires_at = 8600, last_used = None\<rparr>]\<rparr>)"
    by (simp add: verify_challenge_def validate_challenge_healthy store_ch_def empty_store_def
          now_seconds_5000000 parse_key_def check_sig_def store_token_def db_try_healthy)
  from verify_challenge_single_use_healthy [OF h f,
      of "\<lparr>req_challenge = ''c1'', req_public_key = ''K'', req_signature = ''Kc1''\<rparr>"
      parse_key check_sig "''t2''" 3600 5000000 5000000 5000000]
  have s: "verify_challenge parse_key check_sig ''t2'' 3600 5000000 5000000 5000000
      \<lparr>req_challenge = ''c1'', req_public_key = ''K'', req_signature = ''Kc1''\<rparr> empty_store =
     (Inl (Message ''Invalid or expired challenge''), empty_store)"
    by simp
  from h f s g show ?thesis by simp
qed

text \<open>
  The \<open>DELETE\<close> of \<open>validate_challenge\<close> runs under \<open>if (del)\<close> and its outcome is
  not looked at: when it fails the answer is still \<open>true\<close> and the row stays.
\<close>

lemma validate_challenge_delete_fails:
  "validate_challenge 5000000 ''c1'' ''K'' store_ch_faulty = (Inr True, store_ch)"
  by (simp add: validate_challenge_def now_seconds_5000000 db_try_def db_best_effort_def
        db_call_def store_ch_faulty_def store_ch_def empty_store_def)

text \<open>
  Claim C2 does not hold of \<open>verify_challenge\<close> when the \<open>DELETE\<close> that consumes the
  challenge fails. The store holds the challenge \<open>c1\<close> of key \<open>K\<close>, not expired, and
  the fourth database call fails. A first \<open>verify_challenge\<close> with the correct
  signature returns the token \<open>t1\<close> and leaves the row of \<open>c1\<close>; a second one on
  the same challenge returns the token \<open>t2\<close>: two successes on one challenge. In the
  same way a wrong signature is refused and leaves the row, and the correct signature
  that follows is given a token, where the claim wants both second calls to fail.
\<close>

theorem verify_challenge_succeeds_twice:
  "auth_challenges store_ch_faulty =
     [\<lparr>challenge = ''c1'', public_key = ''K'', challenge_expires_at = 5300\<rparr>] \<and>
   db_faults store_ch_faulty = [False, False, False, True] \<and>
   verify_challenge parse_key check_sig ''t1'' 3600 5000000 5000000 5000000 req_good store_ch_faulty =
     (Inr \<lparr>auth_token = ''t1'', auth_expires_at = 8600\<rparr>, store_ch\<lparr>auth_tokens := [token_t1]\<rparr>) \<and>
   verify_challenge parse_key check_sig ''t2'' 3600 5000000 5000000 5000000 req_good
       (store_ch\<lparr>auth_tokens := [token_t1]\<rparr>) =
     (Inr \<lparr>auth_token = ''t2'', auth_expires_at = 8600\<rparr>,
      empty_store\<lparr>auth_tokens := [token_t1, token_t2]\<rparr>) \<and>
   verify_challenge parse_key check_sig ''t1'' 3600 5000000 5000000 5000000 req_bad store_ch_faulty =
     (Inl (Message ''Signature verification failed''), store_ch) \<and>
   verify_challenge parse_key check_sig ''t2'' 3600 5000000 5000000 5000000 req_good store_ch =
     (Inr \<lparr>auth_token = ''t2'', auth_expires_at = 8600\<rparr>, empty_store\<lparr>auth_tokens := [token_t2]\<rparr>)"
proof -
  have c: "auth_challenges store_ch_faulty =
     [\<lparr>challenge = ''c1'', public_key = ''K'', challenge_expires_at = 5300\<rparr>]"
    and d: "db_faults store_ch_faulty = [False, False, False, True]"
    by (simp_all add: store_ch_faulty_def store_ch_def empty_store_def)
  have h: "db_faults store_ch = []" by (simp add: store_ch_def empty_store_def)
  have 1: "verify_challenge parse_key check_sig ''t1'' 3600 5000000 5000000 5000000 req_good store_ch_faulty =
     (Inr \<lparr>auth_token = ''t1'', auth_expires_at = 8600\<rparr>, store_ch\<lparr>auth_tokens := [token_t1]\<rparr>)"
    by (simp add: verify_challenge_def req_good_def validate_challenge_delete_fails parse_key_def
          check_sig_def store_token_def db_try_healthy h now_seconds_5000000 token_t1_def)
       (simp add: store_ch_def empty_store_def)
  have 2: "verify_challenge parse_key check_sig ''t2'' 3600 5000000 5000000 5000000 req_good
       (store_ch\<lparr>auth_tokens := [token_t1]\<rparr>) =
     (Inr \<lparr>auth_token = ''t2'', auth_expires_at = 8600\<rparr>,
      empty_store\<lparr>auth_tokens := [token_t1, token_t2]\<rparr>)"
    by (simp add: verify_challenge_def req_good_def validate_challenge_healthy store_ch_def
          empty_store_def now_seconds_5000000 parse_key_def check_sig_def store_token_def
          db_try_healthy token_t1_def token_t2_def)
  have 3: "verify_challenge parse_key check_sig ''t1'' 3600 5000000 5000000 5000000 req_bad store_ch_faulty =
     (Inl (Message ''Signature verification failed''), store_ch)"
    by (simp add: verify_challenge_def req_bad_def validate_challenge_delete_fails parse_key_def
          check_sig_def)
  have 4: "verify_challenge parse_key check_sig ''t2'' 3600 5000000 5000000 5000000 req_good store_ch =
     (Inr \<lparr>auth_token = ''t2'', auth_expires_at = 8600\<rparr>, empty_store\<lparr>auth_tokens := [token_t2]\<rparr>)"
    by (simp add: verify_challenge_def req_good_def validate_challenge_healthy store_ch_def
          empty_store_def now_seconds_5000000 parse_key_def check_sig_def store_token_def
          db_try_healthy token_t2_def)
  from c d 1 2 3 4 show ?thesis by simp
qed

section \<open>Tag counts\<close>

lemma upsert_note1: "upsert_note note1 empty_store = (Inr (), store_n1)"
  by (simp add: upsert_note_def db_try_healthy db_best_effort_healthy empty_store_def note1_def
        upsert_note_row_def set_note_tags_def db_call_def link_tag_def insert_tag_def
        insert_link_def store_n1_def)

lemma delete_note1: "delete_note 2000 ''n1'' store_n1 = (Inr (), store_n1_deleted)"
  by (simp add: delete_note_def remove_fts_def db_try_healthy db_call_def store_n1_def
        store_n1_deleted_def empty_store_def)

lemma tags_note1_deleted:
  "get_all_tags store_n1_deleted = (Inr [\<lparr>name = ''x'', count = 1\<rparr>], store_n1_deleted)"
  by (simp add: get_all_tags_def db_try_healthy tag_info_def tags_join_def left_join_def
        store_n1_deleted_def empty_store_def)

text \<open>
  Claim C1 does not hold of \<open>get_all_tags\<close>. Note \<open>n1\<close> is stored with the tag \<open>x\<close>
  and then deleted: it is the only note of the store and it is tombstoned, yet
  \<open>get_all_tags\<close> lists \<open>x\<close> with count 1. The join with \<open>notes\<close> filters on
  \<open>is_deleted = 0\<close>, but the count is taken over \<open>nt.note_id\<close>, a column of the link,
  which \<open>delete_note\<close> leaves in place; the claim wants \<open>x\<close> not to be listed.
\<close>

theorem get_all_tags_counts_tombstoned:
  "upsert_note note1 empty_store = (Inr (), store_n1) \<and>
   delete_note 2000 ''n1'' store_n1 = (Inr (), store_n1_deleted) \<and>
   map note_is_deleted (notes_table store_n1_deleted) = [True] \<and>
   get_all_tags store_n1_deleted = (Inr [\<lparr>name = ''x'', count = 1\<rparr>], store_n1_deleted)"
  by (simp add: upsert_note1 delete_note1 tags_note1_deleted)
     (simp add: store_n1_deleted_def empty_store_def)

section \<open>Listing notes\<close>

lemma map_nth_window:
  "map (\<lambda>i. f (xs ! i)) [a ..< min (a + l) (length xs)] = map f (take l (drop a xs))"
proof (rule nth_equalityI)
  show "length (map (\<lambda>i. f (xs ! i)) [a ..< min (a + l) (length xs)]) = length (map f (take l (drop a xs)))"
    by auto
next
  fix i
  assume "i < length (map (\<lambda>i. f (xs ! i)) [a ..< min (a + l) (length xs)])"
  then have i: "i < l" "a + i < length xs" by auto
  then have "[a ..< min (a + l) (length xs)] ! i = a + i" by simp
  with i show "map (\<lambda>i. f (xs ! i)) [a ..< min (a + l) (length xs)] ! i = map f (take l (drop a xs)) ! i"
    by simp
qed

text \<open>A non-negative \<open>i64\<close> is the same number when it is read as \<open>size_t\<close>.\<close>

lemma unat_of_sint:
  fixes w :: "64 word"
  assumes "0 \<le> sint w"
  shows "unat w = nat (sint w) \<and> unat w < 2 ^ 63"
proof -
  have lt: "sint w < 2 ^ 63" using sint_lt [of w] by simp
  then have "take_bit 64 (sint w) = sint w"
    using assms by (intro take_bit_int_eq_self) auto
  then have "uint w = sint w" by (simp add: uint_sint)
  then have u: "unat w = nat (sint w)" by (simp add: unat_eq_nat_uint)
  from lt assms have "nat (sint w) < 2 ^ 63" by (simp add: nat_less_iff)
  with u show ?thesis by simp
qed

lemma page_bounds:
  fixes off lim :: "64 word"
  assumes "0 \<le> sint off" "0 \<le> sint lim" "n < 2 ^ 64"
  shows "unat (min (off + lim) (of_nat n :: 64 word)) = min (nat (sint off) + nat (sint lim)) n"
proof -
  from unat_of_sint [OF assms(1)] unat_of_sint [OF assms(2)]
  have o: "unat off = nat (sint off)" "unat off < 2 ^ 63"
   and l: "unat lim = nat (sint lim)" "unat lim < 2 ^ 63" by simp_all
  then have "unat off + unat lim < 2 ^ 64" by simp
  then have s: "unat (off + lim) = unat off + unat lim"
    using unat_add_lem [of off lim] by simp
  have n: "unat (of_nat n :: 64 word) = n"
    using assms(3) by (simp add: unat_of_nat take_bit_nat_eq_self)
  show ?thesis
    using s n o l by (simp add: min_def word_le_nat_alt)
qed

lemma paginate_window:
  assumes "0 \<le> sint (offset options)" "0 \<le> sint (limit options)" "length ns < 2 ^ 64"
  shows "paginate ops generate_preview options fs ns =
     \<lparr>list_notes_items =
        map (\<lambda>meta. to_list_item generate_preview meta
                      (case fs_read_string ops fs (note_path meta) of Inr c \<Rightarrow> c | Inl _ \<Rightarrow> []))
            (take (nat (sint (limit options))) (drop (nat (sint (offset options))) ns)),
      total = int (length ns)\<rparr>"
  using page_bounds [OF assms] unat_of_sint [OF assms(1)]
    map_nth_window [of _ ns "nat (sint (offset options))" "nat (sint (limit options))"]
  by (simp add: paginate_def Let_def)

lemma query_n12:
  "list_notes_query no_match no_rank (default_options\<lparr>limit := lim, offset := off\<rparr>) store_n12 =
     (Inr [note2, note1], store_n12)"
  by (simp add: list_notes_query_def default_options_def get_all_notes_def db_try_healthy
        store_n12_def empty_store_def to_meta_def note_tag_names_def left_join_def
        group_concat_def parse_tags_def note1_def note2_def)

text \<open>
  As stated, the bound of claim C10 fails: \<open>limit\<close> is an \<open>i64\<close> that the pagination
  casts to \<open>size_t\<close>, so a negative limit is a huge one. With \<open>limit = -1\<close> the two
  notes of the store are both returned, which is more than \<open>limit\<close> items.
\<close>

theorem list_notes_negative_limit_counterexample:
  "list_notes mem_ops (\<lambda>c. c) no_match no_rank (default_options\<lparr>limit := - 1\<rparr>) empty_fs store_n12 =
     (Inr \<lparr>list_notes_items = [item2, item1], total = 2\<rparr>, store_n12) \<and>
   sint (limit (default_options\<lparr>limit := - 1\<rparr>)) = - 1"
proof -
  have q: "list_notes_query no_match no_rank (default_options\<lparr>limit := - 1\<rparr>) store_n12 =
     (Inr [note2, note1], store_n12)"
    using query_n12 [where lim = "- 1" and off = 0] by (simp add: default_options_def)
  have m: "min (- 1) (2 :: 64 word) = 2" by (rule min_absorb2) simp
  have u: "[0 ..< 2] = [0, Suc 0]" by (simp add: upt_rec)
  have p: "paginate mem_ops (\<lambda>c. c) (default_options\<lparr>limit := - 1\<rparr>) empty_fs [note2, note1] =
      \<lparr>list_notes_items = [item2, item1], total = 2\<rparr>"
    by (simp add: paginate_def default_options_def m u mem_ops_def
          mem_read_string_def empty_fs_def to_list_item_def note1_def note2_def item1_def item2_def)
  show ?thesis
    by (simp add: list_notes_def q p)
qed

text \<open>
  Claim C10, amended. Let the query that the options select (search, else tag, else all
  notes) return the notes \<open>ns\<close>. Then \<open>list_notes\<close> succeeds and \<open>total\<close> is the
  number of all of \<open>ns\<close>, whatever \<open>offset\<close> and \<open>limit\<close> are. When \<open>offset\<close> and
  \<open>limit\<close> are non-negative, the items are those of the first \<open>limit\<close> notes of
  \<open>ns\<close> from position \<open>offset\<close> on: at most \<open>limit\<close> items, and all of \<open>ns\<close> when
  \<open>offset\<close> is 0 and \<open>limit\<close> is at least their number. The number of notes fits
  \<open>size_t\<close>, as the size of a vector does.
\<close>

theorem list_notes_paginates:
  assumes query: "list_notes_query fts_match fts_rank options s = (Inr ns, s1)"
  shows "\<exists>resp. list_notes ops generate_preview fts_match fts_rank options fs s = (Inr resp, s1) \<and>
           total resp = int (length ns) \<and>
           (0 \<le> sint (offset options) \<and> 0 \<le> sint (limit options) \<and> length ns < 2 ^ 64 \<longrightarrow>
              list_notes_items resp =
                map (\<lambda>meta. to_list_item generate_preview meta
                              (case fs_read_string ops fs (note_path meta) of Inr c \<Rightarrow> c | Inl _ \<Rightarrow> []))
                    (take (nat (sint (limit options))) (drop (nat (sint (offset options))) ns)) \<and>
              int (length (list_notes_items resp)) \<le> sint (limit options) \<and>
              (offset options = 0 \<and> int (length ns) \<le> sint (limit options) \<longrightarrow>
                 map item_id (list_notes_items resp) = map note_id ns))"
proof -
  have l: "list_notes ops generate_preview fts_match fts_rank options fs s =
      (Inr (paginate ops generate_preview options fs ns), s1)"
    using query by (simp add: list_notes_def)
  have t: "total (paginate ops generate_preview options fs ns) = int (length ns)"
    by (simp add: paginate_def Let_def)
  have w: "0 \<le> sint (offset options) \<and> 0 \<le> sint (limit options) \<and> length ns < 2 ^ 64 \<longrightarrow>
      list_notes_items (paginate ops generate_preview options fs ns) =
                map (\<lambda>meta. to_list_item generate_preview meta
                              (case fs_read_string ops fs (note_path meta) of Inr c \<Rightarrow> c | Inl _ \<Rightarrow> []))
                    (take (nat (sint (limit options))) (drop (nat (sint (offset options))) ns))"
    by (auto simp: paginate_window)
  have a: "offset options = 0 \<and> int (length ns) \<le> sint (limit options) \<longrightarrow>
        take (nat (sint (limit options))) (drop (nat (sint (offset options))) ns) = ns"
    by auto
  show ?thesis
    using l t w a by (auto simp: to_list_item_def comp_def)
qed

text \<open>
  Two notes match; with \<open>offset = 1\<close> and \<open>limit = 1\<close> the second of them, in the order
  of the query, is the one item, and \<open>total\<close> is 2.
\<close>

theorem list_notes_paginates_witness:
  "list_notes_query no_match no_rank (default_options\<lparr>limit := 1, offset := 1\<rparr>) store_n12 =
     (Inr [note2, note1], store_n12) \<and>
   list_notes mem_ops (\<lambda>c. c) no_match no_rank (default_options\<lparr>limit := 1, offset := 1\<rparr>)
       empty_fs store_n12 = (Inr \<lparr>list_notes_items = [item1], total = 2\<rparr>, store_n12)"
proof -
  let ?o = "default_options\<lparr>limit := 1, offset := 1\<rparr>"
  have o: "0 \<le> sint (offset ?o)" and l: "0 \<le> sint (limit ?o)"
    by (simp_all add: default_options_def)
  have n: "length [note2, note1] < 2 ^ 64" by simp
  from list_notes_paginates [OF query_n12, of mem_ops "\<lambda>c. c" 1 1 empty_fs] o l n
  have "list_notes mem_ops (\<lambda>c. c) no_match no_rank ?o empty_fs store_n12 =
      (Inr \<lparr>list_notes_items = [item1], total = 2\<rparr>, store_n12)"
    by (auto simp: default_options_def to_list_item_def note1_def note2_def item1_def
          mem_ops_def mem_read_string_def empty_fs_def)
  with query_n12 show ?thesis by simp
qed

end
